theory Spec2Isabelle
  imports Complex_Main
begin

section \<open>Values, time stamps and errors\<close>

text \<open>
  A grid cell holds a precipitation value or is null (NaN in the arrays of the source).
  Precipitation values are idealised as real numbers: the rounding of the floating-point
  sums and means is not modelled. The rounding of the coordinates is, in the Coordinate
  Normalizer.
\<close>

type_synonym cell = "real option"

text \<open>
  The \<open>valid_time\<close> values of a dataset are \<open>datetime64[ns]\<close>: nanoseconds since
  1970-01-01T00:00, as an integer.
\<close>

type_synonym timestamp = int

text \<open>\<open>pd.Timedelta(hours=h)\<close>, in nanoseconds.\<close>

definition Timedelta_hours :: "int \<Rightarrow> int" where
  "Timedelta_hours h = h * 3600000000000"

text \<open>\<open>.dt.floor("1D")\<close>: round down to a multiple of one day.\<close>

definition floor_1D :: "timestamp \<Rightarrow> timestamp" where
  "floor_1D t = (t div 86400000000000) * 86400000000000"

text \<open>
  The proleptic Gregorian calendar of \<open>datetime\<close>: the number of days from
  1970-01-01 to the given year, month and day, and back.
\<close>

definition days_from_civil :: "int \<Rightarrow> int \<Rightarrow> int \<Rightarrow> int" where
  "days_from_civil y m d =
     (let y' = (if m \<le> 2 then y - 1 else y);
          era = y' div 400;
          yoe = y' - era * 400;
          doy = (153 * (if m > 2 then m - 3 else m + 9) + 2) div 5 + d - 1;
          doe = yoe * 365 + yoe div 4 - yoe div 100 + doy
      in era * 146097 + doe - 719468)"

definition civil_from_days :: "int \<Rightarrow> int \<times> int \<times> int" where
  "civil_from_days z0 =
     (let z = z0 + 719468;
          era = z div 146097;
          doe = z - era * 146097;
          yoe = (doe - doe div 1460 + doe div 36524 - doe div 146096) div 365;
          doy = doe - (365 * yoe + yoe div 4 - yoe div 100);
          mp = (5 * doy + 2) div 153;
          d = doy - (153 * mp + 2) div 5 + 1;
          m = (if mp < 10 then mp + 3 else mp - 9);
          y = yoe + era * 400
      in (if m \<le> 2 then y + 1 else y, m, d))"

text \<open>
  A Python \<open>datetime\<close> of the orchestrator, which only builds whole hours: the number
  of hours since 1970-01-01T00:00. \<open>dt + timedelta(hours=1)\<close> is \<open>dt + 1\<close> and
  \<open>dt <= end\<close> compares the numbers.
\<close>

type_synonym datetime = int

definition datetime :: "int \<Rightarrow> int \<Rightarrow> int \<Rightarrow> int \<Rightarrow> datetime" where
  "datetime y m d h = days_from_civil y m d * 24 + h"

text \<open>The \<open>datetime64[ns]\<close> value of a whole hour.\<close>

definition Timestamp :: "int \<Rightarrow> int \<Rightarrow> int \<Rightarrow> int \<Rightarrow> timestamp" where
  "Timestamp y m d h = Timedelta_hours (datetime y m d h)"

datatype error =
    NameError string
  | AttributeError string
  | KeyError string
  | ValueError string
  | TypeError string
  | OverflowError string
  | FileNotFoundError string
  | ExternalError string

section \<open>Datasets\<close>

text \<open>
  The concatenated and the daily \<open>xr.Dataset\<close>: one data variable \<open>prec\<close> over a time
  dimension, latitude and longitude (\<open>prec ds ! t ! i ! j\<close>). \<open>time_dim\<close> is the name of
  the time dimension: \<open>valid_time\<close> before aggregation, \<open>ref_time\<close> after.
  \<open>spatial_dims\<close> and \<open>crs\<close> are what \<open>rio.set_spatial_dims\<close> and \<open>rio.write_crs\<close>
  record on the dataset (the \<open>spatial_ref\<close> coordinate).
\<close>

record dataset =
  time_dim :: string
  times :: "timestamp list"
  latitude :: "real list"
  longitude :: "real list"
  prec :: "cell list list list"
  attrs :: "(string \<times> string) list"
  spatial_dims :: "(string \<times> string) option"
  crs :: "string option"

text \<open>The data has the shape its dimensions announce.\<close>

definition well_shaped :: "dataset \<Rightarrow> bool" where
  "well_shaped ds \<longleftrightarrow>
     length (prec ds) = length (times ds) \<and>
     list_all (\<lambda>g. length g = length (latitude ds) \<and>
                   list_all (\<lambda>row. length row = length (longitude ds)) g) (prec ds)"

section \<open>Temporal Aggregator\<close>

text \<open>Line 103 of \<open>utils.py\<close>: the start of the 12Z accumulation window of a time stamp.\<close>

definition ref_time_of :: "timestamp \<Rightarrow> timestamp" where
  "ref_time_of t = floor_1D (t - Timedelta_hours 12) + Timedelta_hours 12"

text \<open>
  \<open>sum()\<close> of xarray skips nulls (\<open>skipna\<close> defaults to true for floating-point data, with
  no \<open>min_count\<close>): a null counts as zero and the sum is never null.
\<close>

definition nan_to_zero :: "cell \<Rightarrow> real" where
  "nan_to_zero c = (case c of None \<Rightarrow> 0 | Some v \<Rightarrow> v)"

definition nansum :: "cell list \<Rightarrow> cell" where
  "nansum cs = Some (sum_list (map nan_to_zero cs))"

text \<open>The sum of a group of grids along the time axis, cell by cell.\<close>

definition sum_over_time :: "nat \<Rightarrow> nat \<Rightarrow> cell list list list \<Rightarrow> cell list list" where
  "sum_over_time m n grids =
     map (\<lambda>i. map (\<lambda>j. nansum (map (\<lambda>g. g ! i ! j) grids)) [0..<n]) [0..<m]"

text \<open>
  \<open>datetime64[ns]\<close> is a 64-bit integer whose smallest value stands for the null time:
  a time is representable strictly between \<open>- 2 ^ 63\<close> and \<open>2 ^ 63\<close>. Line 103 computes
  in that type, and the computation of a key fails when \<open>t - 12h\<close> or its floor to the
  day is not representable (the key itself then is, being between the floor and \<open>t\<close>).
\<close>

definition representable :: "int \<Rightarrow> bool" where
  "representable t \<longleftrightarrow> - (2 ^ 63) < t \<and> t < 2 ^ 63"

definition window_in_range :: "timestamp \<Rightarrow> bool" where
  "window_in_range t \<longleftrightarrow>
     representable t \<and> representable (t - Timedelta_hours 12)
     \<and> representable (floor_1D (t - Timedelta_hours 12))"

text \<open>
  \<open>groupby("ref_time")\<close>: the groups are the distinct keys in ascending order; a group
  holds the records of its key, in the order of the input.
\<close>

definition group_of :: "timestamp list \<Rightarrow> 'a list \<Rightarrow> timestamp \<Rightarrow> 'a list" where
  "group_of keys xs k = map snd (filter (\<lambda>p. fst p = k) (zip keys xs))"

definition groupby_ref_time :: "dataset \<Rightarrow> (timestamp \<times> cell list list list) list" where
  "groupby_ref_time ds =
     (let ref_time = map ref_time_of (times ds)
      in map (\<lambda>k. (k, group_of ref_time (prec ds) k)) (sort (remdups ref_time)))"

text \<open>
  \<open>attrs[key] = value\<close> on the attributes of a dataset: the entry of the key is
  replaced where it is, or added at the end.
\<close>

definition set_attr :: "string \<times> string \<Rightarrow> (string \<times> string) list \<Rightarrow> (string \<times> string) list" where
  "set_attr kv xs =
     (case map_of xs (fst kv) of
        None \<Rightarrow> xs @ [kv]
      | Some v \<Rightarrow> map (\<lambda>p. if fst p = fst kv then kv else p) xs)"

definition aggregation_period :: "string \<times> string" where
  "aggregation_period =
     (''aggregation_period'', ''From 12Z to 11Z (ref_time = 12Z start of period)'')"

text \<open>
  \<open>diary_prec_12z\<close>. \<open>ds.valid_time\<close> raises AttributeError on a dataset with no such
  coordinate, the keys are computed in 64 bits, and grouping a dataset with no record at
  all raises ValueError. The result is a new dataset: the input is copied first. The sum
  of the groups keeps the attributes of the input, and line 109 sets the tag among them.
\<close>

definition diary_prec_12z :: "dataset \<Rightarrow> error + dataset" where
  "diary_prec_12z ds =
     (if time_dim ds = ''valid_time''
      then
        (if list_all window_in_range (times ds)
         then
           (if times ds = [] then Inl (ValueError ''Failed to group data'')
            else
              let groups = groupby_ref_time ds
              in Inr \<lparr> time_dim = ''ref_time'',
                       times = map fst groups,
                       latitude = latitude ds,
                       longitude = longitude ds,
                       prec = map (\<lambda>g. sum_over_time (length (latitude ds))
                                          (length (longitude ds)) (snd g)) groups,
                       attrs = set_attr aggregation_period (attrs ds),
                       spatial_dims = None,
                       crs = crs ds \<rparr>)
         else Inl (OverflowError ''datetime64[ns]''))
      else Inl (AttributeError ''valid_time''))"

section \<open>Hourly grids and the Coordinate Normalizer\<close>

text \<open>
  What \<open>xr.open_dataset\<close> reads from one hourly file: two-dimensional data variables
  over latitude and longitude, and the scalar coordinate \<open>valid_time\<close>. Selecting
  \<open>ds[["prec"]]\<close> keeps the one variable and raises KeyError when the file has none of
  that name.
\<close>

record raw =
  r_latitude :: "real list"
  r_longitude :: "real list"
  r_valid_time :: timestamp
  r_data_vars :: "(string \<times> cell list list) list"

record hourly =
  h_latitude :: "real list"
  h_longitude :: "real list"
  h_valid_time :: timestamp
  h_prec :: "cell list list"

definition select_prec :: "raw \<Rightarrow> error + hourly" where
  "select_prec ds =
     (case map_of (r_data_vars ds) ''prec'' of
        None \<Rightarrow> Inl (KeyError ''prec'')
      | Some p \<Rightarrow> Inr \<lparr> h_latitude = r_latitude ds, h_longitude = r_longitude ds,
                         h_valid_time = r_valid_time ds, h_prec = p \<rparr>)"

text \<open>
  The coordinates are 64-bit floating-point numbers, and the arithmetic of the
  normalizer rounds: \<open>float64\<close> is the rounding of a real number to the nearest number
  of 53 significant bits, ties to the even one, down to the subnormal numbers (a step of
  \<open>2 ^ - 1074\<close>); overflow to infinity is not modelled. The number is scaled by powers
  of two until its magnitude is in \<open>[2 ^ 52, 2 ^ 53)\<close>, rounded to an integer and scaled
  back.
\<close>

definition round_half_even :: "real \<Rightarrow> int" where
  "round_half_even y =
     (let f = \<lfloor>y\<rfloor>; d = y - of_int f
      in if d < 1 / 2 then f else if 1 / 2 < d then f + 1 else if even f then f else f + 1)"

fun fl_up :: "nat \<Rightarrow> real \<Rightarrow> real" where
  "fl_up 0 x = of_int (round_half_even x)"
| "fl_up (Suc n) x =
     (if \<bar>x\<bar> < 2 ^ 52 then fl_up n (2 * x) / 2 else of_int (round_half_even x))"

fun fl_down :: "nat \<Rightarrow> real \<Rightarrow> real" where
  "fl_down 0 x = of_int (round_half_even x)"
| "fl_down (Suc n) x =
     (if 2 ^ 53 \<le> \<bar>x\<bar> then 2 * fl_down n (x / 2) else of_int (round_half_even x))"

definition float64 :: "real \<Rightarrow> real" where
  "float64 x = (if x = 0 then 0 else if \<bar>x\<bar> < 2 ^ 53 then fl_up 1074 x else fl_down 971 x)"

text \<open>
  The \<open>%\<close> of numpy on floating-point numbers: the remainder \<open>fmod\<close> of the truncated
  division, which is exact, and the divisor added to it, rounded, when the two differ in
  sign.
\<close>

definition fmod :: "real \<Rightarrow> real \<Rightarrow> real" where
  "fmod x y = x - y * of_int (if 0 \<le> x / y then \<lfloor>x / y\<rfloor> else \<lceil>x / y\<rceil>)"

definition py_mod :: "real \<Rightarrow> real \<Rightarrow> real" where
  "py_mod x y =
     (let m = fmod x y
      in if m \<noteq> 0 \<and> (y < 0) \<noteq> (m < 0) then float64 (m + y) else m)"

text \<open>
  \<open>sortby\<close> takes the positions of a stable ascending sort of the coordinate and
  reorders the coordinate and the data along that dimension by them.
\<close>

definition argsort :: "real list \<Rightarrow> nat list" where
  "argsort xs = sort_key (\<lambda>i. xs ! i) [0..<length xs]"

definition isel :: "nat list \<Rightarrow> 'a list \<Rightarrow> 'a list" where
  "isel idx xs = map (\<lambda>i. xs ! i) idx"

definition sortby_longitude :: "hourly \<Rightarrow> hourly" where
  "sortby_longitude ds =
     (let idx = argsort (h_longitude ds)
      in ds\<lparr> h_longitude := isel idx (h_longitude ds),
             h_prec := map (isel idx) (h_prec ds) \<rparr>)"

definition sortby_latitude :: "hourly \<Rightarrow> hourly" where
  "sortby_latitude ds =
     (let idx = argsort (h_latitude ds)
      in ds\<lparr> h_latitude := isel idx (h_latitude ds),
             h_prec := isel idx (h_prec ds) \<rparr>)"

text \<open>Line 79: \<open>((lon + 180) % 360) - 180\<close>, each operation rounded.\<close>

definition remap_longitude :: "real \<Rightarrow> real" where
  "remap_longitude lon = float64 (py_mod (float64 (lon + 180)) 360 - 180)"

definition fix_coordinates :: "hourly \<Rightarrow> hourly" where
  "fix_coordinates ds =
     (let lon = h_longitude ds;
          ds1 = (if list_ex (\<lambda>x. x > 180) lon
                 then ds\<lparr> h_longitude := map remap_longitude lon \<rparr>
                 else ds)
      in sortby_latitude (sortby_longitude ds1))"

text \<open>\<open>expand_dims("valid_time")\<close>: the scalar coordinate becomes a dimension of length one.\<close>

definition expand_dims :: "hourly \<Rightarrow> dataset" where
  "expand_dims ds =
     \<lparr> time_dim = ''valid_time'', times = [h_valid_time ds],
       latitude = h_latitude ds, longitude = h_longitude ds,
       prec = [h_prec ds], attrs = [], spatial_dims = None, crs = None \<rparr>"

section \<open>Boundary polygons and the Capital Resolver\<close>

text \<open>
  A row of the boundary dataset: the region code, the municipality name and the polygon,
  here the list of its vertices. The GeoDataFrame is the list of its rows, in order, and
  its coordinate reference.
\<close>

type_synonym geometry = "(real \<times> real) list"

record feature =
  SIGLA_UF :: string
  NM_MUN :: string
  geometry :: geometry

record geodataframe =
  features :: "feature list"
  gdf_crs :: "string option"

section \<open>The collaborators\<close>

text \<open>
  The wide table of the pipeline: the row index and the columns in order, each with its
  name and one cell per row. A file on disk holds downloaded or written bytes, or a table
  written as Parquet.
\<close>

record table =
  tbl_index :: "timestamp list"
  tbl_columns :: "(string \<times> cell list) list"

datatype file_content = Bytes string | Parquet table

text \<open>
  The libraries and services the pipeline calls and does not implement are parameters:
  the HTTP request (an exception, or the status code and the body), the decoding of a
  GRIB2 file's bytes, the index of the messages of a file that cfgrib keeps next to it
  (none when the messages cannot be read) and the hash in the name of that index,
  \<open>xr.concat\<close>, \<open>gpd.read_file\<close> on a path, whether the document store answers, and
  the rasterisation of polygons on a grid inside \<open>rio.clip\<close> (an exception, or for each
  grid position whether the clip keeps it). The theorems hold for every behaviour of
  them.
\<close>

record env =
  requests_get :: "string \<Rightarrow> error + nat \<times> string"
  open_grib :: "string \<Rightarrow> error + raw"
  grib_index :: "file_content \<Rightarrow> string option"
  short_hash :: string
  xr_concat :: "dataset list \<Rightarrow> error + dataset"
  read_file :: "string \<Rightarrow> error + geodataframe"
  geometry_mask ::
    "geometry list \<Rightarrow> string option \<Rightarrow> real list \<Rightarrow> real list \<Rightarrow> error + (nat \<Rightarrow> nat \<Rightarrow> bool)"
  mongo_up :: bool

text \<open>
  \<open>extract_capitals_from_shapefile\<close>: the rows whose region code is a key of the
  dictionary and whose name equals the dictionary's entry for it, in the order of the
  dataset.
\<close>

definition is_capital :: "(string \<rightharpoonup> string) \<Rightarrow> feature \<Rightarrow> bool" where
  "is_capital capitals_dict row =
     (case capitals_dict (SIGLA_UF row) of
        None \<Rightarrow> False
      | Some name \<Rightarrow> NM_MUN row = name)"

definition extract_capitals_from_shapefile ::
  "env \<Rightarrow> string \<Rightarrow> (string \<rightharpoonup> string) \<Rightarrow> error + geodataframe" where
  "extract_capitals_from_shapefile e shapefile_path capitals_dict =
     (case read_file e shapefile_path of
        Inl err \<Rightarrow> Inl err
      | Inr gdf \<Rightarrow> Inr (gdf\<lparr> features := filter (is_capital capitals_dict) (features gdf) \<rparr>))"

section \<open>Spatial Masker\<close>

text \<open>
  \<open>mask_data\<close>. The mask is a GeoDataFrame or the path of a file to read one from.
  \<open>set_spatial_dims\<close> and \<open>write_crs\<close> are called with \<open>inplace=True\<close>:
  they write on the dataset passed in, so the function returns that dataset as it is
  left, next to its result. \<open>rio.clip\<close> with \<open>drop=False\<close> is \<open>where\<close> on the
  rasterised polygons: a cell the mask leaves out becomes null, the shape stays.
\<close>

datatype mask_arg = MaskPath string | MaskFrame geodataframe

definition geo_df_of :: "env \<Rightarrow> mask_arg \<Rightarrow> error + geodataframe" where
  "geo_df_of e msk = (case msk of MaskFrame g \<Rightarrow> Inr g | MaskPath p \<Rightarrow> read_file e p)"

definition where_mask :: "(nat \<Rightarrow> nat \<Rightarrow> bool) \<Rightarrow> nat \<Rightarrow> nat \<Rightarrow> cell list list \<Rightarrow> cell list list" where
  "where_mask inside m n g =
     map (\<lambda>i. map (\<lambda>j. if inside i j then g ! i ! j else None) [0..<n]) [0..<m]"

definition mask_data :: "env \<Rightarrow> dataset \<Rightarrow> mask_arg \<Rightarrow> dataset \<times> (error + dataset)" where
  "mask_data e ds msk =
     (case geo_df_of e msk of
        Inl err \<Rightarrow> (ds, Inl err)
      | Inr geo_df \<Rightarrow>
          let ds1 = ds\<lparr> spatial_dims := Some (''longitude'', ''latitude'') \<rparr>;
              ds2 = ds1\<lparr> crs := Some ''epsg:4326'' \<rparr>
          in (ds2,
              case geometry_mask e (map geometry (features geo_df)) (gdf_crs geo_df)
                     (latitude ds2) (longitude ds2) of
                Inl err \<Rightarrow> Inl err
              | Inr inside \<Rightarrow>
                  Inr (ds2\<lparr> prec := map (where_mask inside (length (latitude ds2))
                                              (length (longitude ds2))) (prec ds2) \<rparr>)))"

text \<open>A dataset with what the two in-place calls write on it.\<close>

definition stamp_crs :: "dataset \<Rightarrow> dataset" where
  "stamp_crs ds =
     ds\<lparr> spatial_dims := Some (''longitude'', ''latitude''), crs := Some ''epsg:4326'' \<rparr>"

section \<open>Timeseries Extractor\<close>

text \<open>
  \<open>mean(dim=['latitude', 'longitude'])\<close> skips nulls; the mean of no value at all is
  null.
\<close>

definition nanmean :: "cell list \<Rightarrow> cell" where
  "nanmean cs =
     (let vs = map the (filter (\<lambda>c. c \<noteq> None) cs)
      in if vs = [] then None else Some (sum_list vs / real (length vs)))"

text \<open>
  The one-column frame of a capital: \<open>to_dataframe().dropna()\<close> keeps the windows whose
  mean is not null.
\<close>

type_synonym series = "(timestamp \<times> real) list"

definition capital_series :: "dataset \<Rightarrow> series" where
  "capital_series ds_capital =
     map (\<lambda>p. (fst p, the (snd p)))
       (filter (\<lambda>p. snd p \<noteq> None)
          (zip (times ds_capital) (map (\<lambda>g. nanmean (concat g)) (prec ds_capital))))"

text \<open>
  \<open>pd.concat(frames, axis=1)\<close> joins the frames on the union of their indexes, taken
  frame after frame from the first: the union with an empty or an equal index is the
  index as it stands, the union of an empty index with another is the other, and any
  other union of two indexes of time stamps is ascending. A frame has null where it has
  no row. An empty list raises ValueError. The windows of a frame are taken to be
  distinct, as those of an aggregated dataset are.
\<close>

definition index_union :: "timestamp list \<Rightarrow> timestamp list \<Rightarrow> timestamp list" where
  "index_union a b =
     (if b = [] \<or> a = b then a else if a = [] then b else sort (remdups (a @ b)))"

definition pd_concat_columns :: "(string \<times> series) list \<Rightarrow> error + table" where
  "pd_concat_columns frames =
     (if frames = [] then Inl (ValueError ''No objects to concatenate'')
      else
        let idx = foldl index_union (map fst (snd (hd frames)))
                    (map (\<lambda>f. map fst (snd f)) (tl frames))
        in Inr \<lparr> tbl_index = idx,
                 tbl_columns = map (\<lambda>f. (fst f, map (\<lambda>k. map_of (snd f) k) idx)) frames \<rparr>)"

text \<open>
  The loop of \<open>extract_capitals_timeseries\<close> over the names of the resolved rows. Each
  pass masks the daily dataset with the rows of that name; the dataset is threaded
  through, since \<open>mask_data\<close> writes on it.
\<close>

fun extract_loop ::
  "env \<Rightarrow> geodataframe \<Rightarrow> string list \<Rightarrow> dataset \<Rightarrow> (string \<times> series) list
     \<Rightarrow> dataset \<times> (error + (string \<times> series) list)" where
  "extract_loop e gdf_capitals [] ds_daily df_br_list = (ds_daily, Inr df_br_list)"
| "extract_loop e gdf_capitals (capital # rest) ds_daily df_br_list =
     (let msk = gdf_capitals\<lparr> features :=
                  filter (\<lambda>row. NM_MUN row = capital) (features gdf_capitals) \<rparr>
      in case mask_data e ds_daily (MaskFrame msk) of
           (ds_daily', Inl err) \<Rightarrow> (ds_daily', Inl err)
         | (ds_daily', Inr ds_capital) \<Rightarrow>
             extract_loop e gdf_capitals rest ds_daily'
               (df_br_list @ [(capital, capital_series ds_capital)]))"

definition extract_capitals_timeseries ::
  "env \<Rightarrow> dataset \<Rightarrow> geodataframe \<Rightarrow> dataset \<times> (error + table)" where
  "extract_capitals_timeseries e ds_daily gdf_capitals =
     (case extract_loop e gdf_capitals (map NM_MUN (features gdf_capitals)) ds_daily [] of
        (ds_daily', Inl err) \<Rightarrow> (ds_daily', Inl err)
      | (ds_daily', Inr df_br_list) \<Rightarrow> (ds_daily', pd_concat_columns df_br_list))"

section \<open>Files, downloads and the Orchestrator\<close>

text \<open>
  The state outside the program: the directories and files on disk, the documents of the
  collection, and the calls of pipeline stages made so far.
\<close>

type_synonym document = "timestamp \<times> (string \<times> cell) list"

datatype call = CallDownload datetime | CallAggregate | CallToParquet | CallSaveMongo

record world =
  dirs :: "string set"
  files :: "string \<rightharpoonup> file_content"
  mongo :: "document list"
  calls :: "call list"

text \<open>\<open>strftime\<close> with zero-padded fields, for years of four digits.\<close>

definition digit :: "int \<Rightarrow> char" where
  "digit n = ''0123456789'' ! nat (n mod 10)"

definition pad2 :: "int \<Rightarrow> string" where
  "pad2 n = [digit (n div 10), digit n]"

definition pad4 :: "int \<Rightarrow> string" where
  "pad4 n = [digit (n div 1000), digit (n div 100), digit (n div 10), digit n]"

definition strftime_YmdH :: "datetime \<Rightarrow> string" where
  "strftime_YmdH dt =
     (case civil_from_days (dt div 24) of
        (y, m, d) \<Rightarrow> pad4 y @ pad2 m @ pad2 d @ pad2 (dt mod 24))"

definition merge_url :: "datetime \<Rightarrow> string" where
  "merge_url dt =
     (case civil_from_days (dt div 24) of
        (y, m, d) \<Rightarrow>
          ''https://ftp.cptec.inpe.br/modelos/tempo/MERGE/GPM/HOURLY/'' @ pad4 y @ ''/''
            @ pad2 m @ ''/'' @ pad2 d @ ''/MERGE_CPTEC_'' @ strftime_YmdH dt @ ''.grib2'')"

text \<open>
  \<open>os.path.join\<close> of two components with the separator of POSIX: a second component
  that starts at the root stands alone, and no separator is added to an empty first
  component or to one that ends in a separator.
\<close>

definition os_path_join :: "string \<Rightarrow> string \<Rightarrow> string" where
  "os_path_join a b =
     (if take 1 b = ''/'' then b
      else if a = [] \<or> last a = CHR ''/'' then a @ b
      else a @ ''/'' @ b)"

text \<open>
  \<open>download_merge_cptec\<close>: the file is written only on status 200; the file name is
  returned in both cases. An exception of the request passes to the caller.
\<close>

definition download_merge_cptec ::
  "env \<Rightarrow> datetime \<Rightarrow> string \<Rightarrow> world \<Rightarrow> world \<times> (error + string)" where
  "download_merge_cptec e date output_dir w =
     (let w1 = w\<lparr> dirs := insert output_dir (dirs w) \<rparr>;
          url = merge_url date;
          filename = os_path_join output_dir (''MERGE_CPTEC_'' @ strftime_YmdH date @ ''.grib2'')
      in case requests_get e url of
           Inl err \<Rightarrow> (w1, Inl err)
         | Inr (status_code, content) \<Rightarrow>
             if status_code = 200
             then (w1\<lparr> files := (files w1)(filename \<mapsto> Bytes content) \<rparr>, Inr filename)
             else (w1, Inr filename))"

text \<open>
  \<open>xr.open_dataset(filename, engine="cfgrib")\<close> on the file of that name. cfgrib
  indexes the messages of the file and, when no file of that name is there yet, writes
  the index next to it as \<open>{path}.{short_hash}.idx\<close>; an index already there is
  left as it is, and is taken to agree with the file. A file that holds a table has no
  GRIB message.
\<close>

definition indexpath :: "env \<Rightarrow> string \<Rightarrow> string" where
  "indexpath e path = path @ ''.'' @ short_hash e @ ''.idx''"

definition write_index :: "env \<Rightarrow> world \<Rightarrow> string \<Rightarrow> file_content \<Rightarrow> world" where
  "write_index e w filename c =
     (case grib_index e c of
        None \<Rightarrow> w
      | Some ix \<Rightarrow>
          if files w (indexpath e filename) = None
          then w\<lparr> files := (files w)(indexpath e filename \<mapsto> Bytes ix) \<rparr>
          else w)"

definition open_dataset :: "env \<Rightarrow> world \<Rightarrow> string \<Rightarrow> world \<times> (error + raw)" where
  "open_dataset e w filename =
     (case files w filename of
        None \<Rightarrow> (w, Inl (FileNotFoundError filename))
      | Some c \<Rightarrow>
          (write_index e w filename c,
           case c of
             Parquet t \<Rightarrow> Inl (ExternalError ''not a GRIB file'')
           | Bytes b \<Rightarrow> open_grib e b))"

text \<open>The path that line 88 of \<open>app.py\<close> builds for an hour.\<close>

definition hour_file :: "datetime \<Rightarrow> string" where
  "hour_file dt = ''./merge_data/MERGE_CPTEC_'' @ strftime_YmdH dt @ ''.grib2''"

text \<open>
  The body of the loop over the hours, lines 83 to 107 of \<open>app.py\<close>: any exception of
  steps 1 to 7 is caught and the hour adds nothing; what the download and the opening
  wrote stays. What the program prints is left out of the model.
\<close>

definition process_hour :: "env \<Rightarrow> datetime \<Rightarrow> world \<times> dataset list \<Rightarrow> world \<times> dataset list" where
  "process_hour e dt st =
     (case st of (w, datasets) \<Rightarrow>
        (case download_merge_cptec e dt ''./merge_data'' (w\<lparr> calls := calls w @ [CallDownload dt] \<rparr>) of
           (w1, Inl err) \<Rightarrow> (w1, datasets)
         | (w1, Inr returned) \<Rightarrow>
             let filename = hour_file dt
             in (case open_dataset e w1 filename of
                   (w2, Inl err) \<Rightarrow> (w2, datasets)
                 | (w2, Inr opened) \<Rightarrow>
                     (case select_prec opened of
                        Inl err \<Rightarrow> (w2, datasets)
                      | Inr ds \<Rightarrow> (w2, datasets @ [expand_dims (fix_coordinates ds)])))))"

function hour_loop ::
  "env \<Rightarrow> datetime \<Rightarrow> datetime \<Rightarrow> world \<times> dataset list \<Rightarrow> world \<times> dataset list" where
  "hour_loop e dt endt st =
     (if dt \<le> endt then hour_loop e (dt + 1) endt (process_hour e dt st) else st)"
  by pat_completeness auto
termination
  by (relation "measure (\<lambda>(e, dt, endt, st). nat (endt + 1 - dt))") auto

declare hour_loop.simps [simp del]

text \<open>
  \<open>save_parquet_to_mongodb\<close>: one document per row of the table, appended to the
  collection. \<open>insert_many\<close> refuses an empty list before it reaches for the server;
  \<open>MongoClient\<close> connects only then.
\<close>

definition to_records :: "table \<Rightarrow> document list" where
  "to_records df =
     map (\<lambda>i. (tbl_index df ! i, map (\<lambda>c. (fst c, snd c ! i)) (tbl_columns df)))
       [0..<length (tbl_index df)]"

definition save_parquet_to_mongodb :: "env \<Rightarrow> string \<Rightarrow> world \<Rightarrow> world \<times> (error + unit)" where
  "save_parquet_to_mongodb e parquet_path w =
     (case files w parquet_path of
        None \<Rightarrow> (w, Inl (FileNotFoundError parquet_path))
      | Some (Bytes b) \<Rightarrow> (w, Inl (ExternalError ''not a Parquet file''))
      | Some (Parquet df) \<Rightarrow>
          let data_dict = to_records df
          in if data_dict = []
             then (w, Inl (TypeError ''documents must be a non-empty list''))
             else if mongo_up e
             then (w\<lparr> mongo := mongo w @ data_dict \<rparr>, Inr ())
             else (w, Inl (ExternalError ''MongoDB'')))"

text \<open>The dictionary \<open>uf_br\<close> of \<open>app.py\<close>; the names are in UTF-8.\<close>

definition uf_br :: "string \<rightharpoonup> string" where
  "uf_br = map_of
     [ (''AC'', ''Rio Branco''),
       (''AP'', ''Macap'' @ [CHR 0xC3, CHR 0xA1]),
       (''AM'', ''Manaus''),
       (''PA'', ''Bel'' @ [CHR 0xC3, CHR 0xA9] @ ''m''),
       (''RO'', ''Porto Velho''),
       (''RR'', ''Boa Vista''),
       (''TO'', ''Palmas''),
       (''AL'', ''Macei'' @ [CHR 0xC3, CHR 0xB3]),
       (''BA'', ''Salvador''),
       (''CE'', ''Fortaleza''),
       (''MA'', ''S'' @ [CHR 0xC3, CHR 0xA3] @ ''o Lu'' @ [CHR 0xC3, CHR 0xAD] @ ''s''),
       (''PB'', ''Jo'' @ [CHR 0xC3, CHR 0xA3] @ ''o Pessoa''),
       (''PE'', ''Recife''),
       (''PI'', ''Teresina''),
       (''RN'', ''Natal''),
       (''SE'', ''Aracaju''),
       (''DF'', ''Bras'' @ [CHR 0xC3, CHR 0xAD] @ ''lia''),
       (''GO'', ''Goi'' @ [CHR 0xC3, CHR 0xA2] @ ''nia''),
       (''MT'', ''Cuiab'' @ [CHR 0xC3, CHR 0xA1]),
       (''MS'', ''Campo Grande''),
       (''MG'', ''Belo Horizonte''),
       (''ES'', ''Vit'' @ [CHR 0xC3, CHR 0xB3] @ ''ria''),
       (''RJ'', ''Rio de Janeiro''),
       (''SP'', ''S'' @ [CHR 0xC3, CHR 0xA3] @ ''o Paulo''),
       (''PR'', ''Curitiba''),
       (''RS'', ''Porto Alegre''),
       (''SC'', ''Florian'' @ [CHR 0xC3, CHR 0xB3] @ ''polis'') ]"

definition path_gdf :: string where
  "path_gdf = ''.'' @ [CHR 0x5C] @ ''BR_Municipios_2024'' @ [CHR 0x5C] @ ''BR_Municipios_2024.shp''"

definition parquet_path :: string where
  "parquet_path = ''./output/capitals_br_daily_prec.parquet''"

text \<open>
  The script of \<open>app.py\<close> from line 75 on, for a start and an end hour. With no dataset
  accumulated, \<open>ds_all\<close> is never bound and naming it as the argument of the aggregator
  on line 121 raises NameError. An exception outside the loop ends the run.
\<close>

definition run_hours :: "env \<Rightarrow> datetime \<Rightarrow> datetime \<Rightarrow> world \<Rightarrow> world \<times> dataset list" where
  "run_hours e start endt w =
     (if start > endt then (w, []) else hour_loop e start endt (w, []))"

text \<open>Lines 126 to 129: the regions are resolved, then the table is extracted.\<close>

definition capitals_table ::
  "env \<Rightarrow> string \<Rightarrow> (string \<rightharpoonup> string) \<Rightarrow> dataset \<Rightarrow> error + table" where
  "capitals_table e shapefile_path capitals_dict ds_daily =
     (case extract_capitals_from_shapefile e shapefile_path capitals_dict of
        Inl err \<Rightarrow> Inl err
      | Inr gdf_capitals \<Rightarrow> snd (extract_capitals_timeseries e ds_daily gdf_capitals))"

definition main :: "env \<Rightarrow> datetime \<Rightarrow> datetime \<Rightarrow> world \<Rightarrow> world \<times> (error + unit)" where
  "main e start endt w =
     (case run_hours e start endt w of
        (w1, datasets) \<Rightarrow>
          (case (if datasets \<noteq> [] then xr_concat e datasets else Inl (NameError ''ds_all'')) of
             Inl err \<Rightarrow> (w1, Inl err)
           | Inr ds_all \<Rightarrow>
               let w2 = w1\<lparr> calls := calls w1 @ [CallAggregate] \<rparr>
               in (case diary_prec_12z ds_all of
                     Inl err \<Rightarrow> (w2, Inl err)
                   | Inr ds_daily \<Rightarrow>
                       (case capitals_table e path_gdf uf_br ds_daily of
                          Inl err \<Rightarrow> (w2, Inl err)
                        | Inr df_br \<Rightarrow>
                            let w3 = w2\<lparr> dirs := insert ''./output'' (dirs w2),
                                           files := (files w2)
                                             (os_path_join ''./output''
                                                ''capitals_br_daily_prec.parquet'' \<mapsto> Parquet df_br),
                                           calls := calls w2 @ [CallToParquet] \<rparr>
                            in save_parquet_to_mongodb e parquet_path
                                 (w3\<lparr> calls := calls w3 @ [CallSaveMongo] \<rparr>)))))"

text \<open>The run of the script as it stands, from 2025-01-02T23:00 to 2025-01-05T23:00.\<close>

definition app :: "env \<Rightarrow> world \<Rightarrow> world \<times> (error + unit)" where
  "app e w = main e (datetime 2025 1 2 23) (datetime 2025 1 5 23) w"

text \<open>
  Whether a file yields a grid (it decodes and has the variable \<open>prec\<close>), and when an
  hour fails on a disk \<open>w\<close>: the request raises, or it is answered with status 200 and
  a body that yields no grid, or it is answered with another status and the disk has no
  file at the path of the hour that yields a grid.
\<close>

definition yields_grid :: "env \<Rightarrow> file_content \<Rightarrow> bool" where
  "yields_grid e c =
     (case c of
        Parquet t \<Rightarrow> False
      | Bytes b \<Rightarrow>
          (case open_grib e b of
             Inl err \<Rightarrow> False
           | Inr opened \<Rightarrow> (case select_prec opened of Inl err \<Rightarrow> False | Inr ds \<Rightarrow> True)))"

definition hour_fails :: "env \<Rightarrow> world \<Rightarrow> datetime \<Rightarrow> bool" where
  "hour_fails e w dt =
     (case requests_get e (merge_url dt) of
        Inl err \<Rightarrow> True
      | Inr (status_code, content) \<Rightarrow>
          if status_code = 200 then \<not> yields_grid e (Bytes content)
          else (case files w (hour_file dt) of
                  None \<Rightarrow> True
                | Some c \<Rightarrow> \<not> yields_grid e c))"

section \<open>Scenarios\<close>

text \<open>
  The inputs of the scenarios: \<open>k\<close> consecutive hourly records from \<open>t0\<close> on a grid
  with the given coordinates, every cell 1.0.
\<close>

definition hour_times :: "timestamp \<Rightarrow> nat \<Rightarrow> timestamp list" where
  "hour_times t0 k = map (\<lambda>i. t0 + Timedelta_hours (int i)) [0..<k]"

definition hourly_ones :: "timestamp \<Rightarrow> nat \<Rightarrow> real list \<Rightarrow> real list \<Rightarrow> dataset" where
  "hourly_ones t0 k lats lons =
     \<lparr> time_dim = ''valid_time'',
       times = hour_times t0 k,
       latitude = lats,
       longitude = lons,
       prec = replicate k (replicate (length lats) (replicate (length lons) (Some 1))),
       attrs = [],
       spatial_dims = None,
       crs = None \<rparr>"


definition noon_record :: dataset where
  "noon_record =
     \<lparr> time_dim = ''valid_time'',
       times = [Timestamp 2025 1 2 12],
       latitude = [0],
       longitude = [0, 1],
       prec = [[[Some 5, None]]],
       attrs = [],
       spatial_dims = None,
       crs = None \<rparr>"

definition two_noons :: dataset where
  "two_noons =
     \<lparr> time_dim = ''valid_time'',
       times = [Timestamp 2025 1 2 12, Timestamp 2025 1 3 12],
       latitude = [0],
       longitude = [0, 1],
       prec = [[[Some 5, None]], [[Some 7, Some 2]]],
       attrs = [],
       spatial_dims = None,
       crs = None \<rparr>"

text \<open>
  Hourly grids on one latitude: longitudes from 0 to 180, longitudes 0 and 360 together,
  a longitude one step of the floating-point numbers below -180 next to one beyond 180,
  and a grid of two latitudes with a longitude beyond 180.
\<close>

definition grid_below_minus_180 :: hourly where
  "grid_below_minus_180 =
     \<lparr> h_latitude = [0], h_longitude = [- 180 - 1 / 2 ^ 45, 270],
       h_valid_time = Timestamp 2025 1 2 13,
       h_prec = [[Some 1, Some 2]] \<rparr>"

definition grid_0_180 :: hourly where
  "grid_0_180 =
     \<lparr> h_latitude = [0], h_longitude = [0, 90, 180], h_valid_time = Timestamp 2025 1 2 13,
       h_prec = [[Some 1, Some 2, Some 3]] \<rparr>"

definition grid_0_360 :: hourly where
  "grid_0_360 =
     \<lparr> h_latitude = [0], h_longitude = [0, 180, 360], h_valid_time = Timestamp 2025 1 2 13,
       h_prec = [[Some 1, Some 2, Some 3]] \<rparr>"

definition grid_0_270 :: hourly where
  "grid_0_270 =
     \<lparr> h_latitude = [10, - 10], h_longitude = [0, 90, 270],
       h_valid_time = Timestamp 2025 1 2 13,
       h_prec = [[Some 1, Some 2, Some 3], [Some 4, Some 5, Some 6]] \<rparr>"

text \<open>
  A boundary dataset of three municipalities, one in which a municipality comes in two
  rows, and a dictionary whose entry for RJ names no row of either.
\<close>

definition square :: geometry where
  "square = [(0, 0), (1, 0), (1, 1), (0, 1)]"

definition boundary_demo :: geodataframe where
  "boundary_demo =
     \<lparr> features =
         [\<lparr> SIGLA_UF = ''SP'', NM_MUN = ''Sao Paulo'', geometry = square \<rparr>,
          \<lparr> SIGLA_UF = ''SP'', NM_MUN = ''Campinas'', geometry = square \<rparr>,
          \<lparr> SIGLA_UF = ''RJ'', NM_MUN = ''Rio'', geometry = square \<rparr>],
       gdf_crs = Some ''EPSG:4674'' \<rparr>"

definition boundary_two_parts :: geodataframe where
  "boundary_two_parts =
     \<lparr> features =
         [\<lparr> SIGLA_UF = ''SP'', NM_MUN = ''Sao Paulo'', geometry = square \<rparr>,
          \<lparr> SIGLA_UF = ''SP'', NM_MUN = ''Sao Paulo'', geometry = [(2, 2), (3, 2), (3, 3)] \<rparr>],
       gdf_crs = Some ''EPSG:4674'' \<rparr>"

definition mapping_demo :: "string \<rightharpoonup> string" where
  "mapping_demo = map_of [(''SP'', ''Sao Paulo''), (''RJ'', ''Rio de Janeiro'')]"

text \<open>
  Collaborators that answer every request with status 404, decode no file but index
  any, read the given boundary dataset from any path and rasterise every polygon to the
  first column of the grid; a variant that decodes the bytes of one old file; and one
  that also concatenates a single dataset and reads the capital of Acre.
\<close>

definition env_with :: "geodataframe \<Rightarrow> env" where
  "env_with gdf =
     \<lparr> requests_get = (\<lambda>url. Inr (404, [])),
       open_grib = (\<lambda>b. Inl (ExternalError ''not a GRIB file'')),
       grib_index = (\<lambda>c. Some ''index''),
       short_hash = ''5ccc7'',
       xr_concat = (\<lambda>dss. Inl (ExternalError ''concat'')),
       read_file = (\<lambda>p. Inr gdf),
       geometry_mask = (\<lambda>gs c lats lons. Inr (\<lambda>i j. j = 0)),
       mongo_up = True \<rparr>"

definition raw_demo :: raw where
  "raw_demo =
     \<lparr> r_latitude = [0], r_longitude = [0, 270], r_valid_time = Timestamp 2024 12 31 23,
       r_data_vars = [(''prec'', [[Some 1, Some 2]])] \<rparr>"

definition env_stale :: env where
  "env_stale = (env_with boundary_demo)
     \<lparr> open_grib := (\<lambda>b. if b = ''old'' then Inr raw_demo
                          else Inl (ExternalError ''not a GRIB file'')) \<rparr>"

definition boundary_acre :: geodataframe where
  "boundary_acre =
     \<lparr> features = [\<lparr> SIGLA_UF = ''AC'', NM_MUN = ''Rio Branco'', geometry = square \<rparr>],
       gdf_crs = Some ''EPSG:4674'' \<rparr>"

definition env_rerun :: env where
  "env_rerun = (env_with boundary_acre)
     \<lparr> open_grib := (\<lambda>b. if b = ''old'' then Inr raw_demo
                          else Inl (ExternalError ''not a GRIB file'')),
       xr_concat := (\<lambda>dss. case dss of [ds] \<Rightarrow> Inr ds
                                        | _ \<Rightarrow> Inl (ExternalError ''concat'')) \<rparr>"

text \<open>A daily dataset of one window, an empty disk, and a disk with a file of an earlier run.\<close>

definition daily_demo :: dataset where
  "daily_demo =
     \<lparr> time_dim = ''ref_time'',
       times = [Timestamp 2025 1 2 12],
       latitude = [0],
       longitude = [0, 1],
       prec = [[[Some 5, Some 3]]],
       attrs = [aggregation_period],
       spatial_dims = None,
       crs = None \<rparr>"

definition world0 :: world where
  "world0 = \<lparr> dirs = {}, files = Map.empty, mongo = [], calls = [] \<rparr>"

definition world_stale :: world where
  "world_stale = world0
     \<lparr> files := [''./merge_data/MERGE_CPTEC_2025010223.grib2'' \<mapsto> Bytes ''old''] \<rparr>"

section \<open>The accumulation window\<close>

lemma floor_1D_mod: "floor_1D t = t - t mod 86400000000000"
  unfolding floor_1D_def by (simp add: minus_mod_eq_div_mult)

lemma floor_1D_le: "floor_1D t \<le> t"
  unfolding floor_1D_mod by simp

lemma floor_1D_gt: "t < floor_1D t + 86400000000000"
proof -
  have "t mod 86400000000000 < 86400000000000" by (rule pos_mod_bound) simp
  then show ?thesis unfolding floor_1D_mod by linarith
qed


lemma floor_1D_mod_day: "floor_1D t mod 86400000000000 = 0"
  unfolding floor_1D_def by simp

lemma ref_time_of_bounds: "ref_time_of t \<le> t \<and> t < ref_time_of t + Timedelta_hours 24"
  using floor_1D_le [of "t - Timedelta_hours 12"] floor_1D_gt [of "t - Timedelta_hours 12"]
  unfolding ref_time_of_def Timedelta_hours_def
  by simp

lemma ref_time_of_noon: "ref_time_of t mod Timedelta_hours 24 = Timedelta_hours 12"
proof -
  have "(floor_1D (t - 43200000000000) + 43200000000000) mod 86400000000000
        = (floor_1D (t - 43200000000000) mod 86400000000000
            + 43200000000000 mod 86400000000000) mod 86400000000000"
    by (rule mod_add_eq [symmetric])
  then show ?thesis
    unfolding ref_time_of_def Timedelta_hours_def by (simp add: floor_1D_mod_day)
qed


lemma window_unique:
  fixes a b :: int
  assumes "a mod D = b mod D" "a \<le> t" "t < a + D" "b \<le> t" "t < b + D"
  shows "a = b"
proof -
  have "D dvd (a - b)" using assms(1) by (simp add: mod_eq_dvd_iff)
  moreover have "\<bar>a - b\<bar> < D" using assms by linarith
  ultimately show ?thesis
    using zdvd_not_zless [of "\<bar>a - b\<bar>" D] by (cases "a = b") (auto simp: dvd_abs_iff)
qed

lemma ref_time_of_unique:
  "k mod Timedelta_hours 24 = Timedelta_hours 12 \<Longrightarrow> k \<le> t \<Longrightarrow> t < k + Timedelta_hours 24
     \<Longrightarrow> k = ref_time_of t"
  using window_unique [of k "Timedelta_hours 24" "ref_time_of t" t]
    ref_time_of_bounds [of t] ref_time_of_noon [of t]
  by simp

lemma ref_time_of_mono: "t \<le> u \<Longrightarrow> ref_time_of t \<le> ref_time_of u"
  unfolding ref_time_of_def floor_1D_def by (simp add: zdiv_mono1)

lemma sorted_map_ref_time_of: "sorted ts \<Longrightarrow> sorted (map ref_time_of ts)"
  by (induction ts) (auto simp: ref_time_of_mono)

lemma ref_time_of_at_noon:
  "t mod Timedelta_hours 24 = Timedelta_hours 12 \<Longrightarrow> ref_time_of t = t"
  using ref_time_of_unique [of t t] by (simp add: Timedelta_hours_def)

section \<open>Groups and their sums\<close>

lemma map_upt_const: "(\<And>j. j < n \<Longrightarrow> f j = c) \<Longrightarrow> map f [0..<n] = replicate n c"
  by (induction n) (auto simp: replicate_append_same)

lemma map_nth_fun: "map (\<lambda>j. f (xs ! j)) [0..<length xs] = map f xs"
proof -
  have "map (\<lambda>j. f (xs ! j)) [0..<length xs] = map f (map (\<lambda>j. xs ! j) [0..<length xs])"
    by (simp add: comp_def)
  then show ?thesis by (simp add: map_nth)
qed

lemma group_of_replicate:
  "group_of keys (replicate (length keys) g) k = replicate (count_list keys k) g"
  unfolding group_of_def by (induction keys) auto

lemma group_of_notin: "k \<notin> set rs \<Longrightarrow> group_of rs gs k = []"
  unfolding group_of_def by (auto simp: filter_empty_conv dest: set_zip_leftD)

lemma group_of_Cons:
  "group_of (r # rs) (g # gs) k = (if r = k then g # group_of rs gs k else group_of rs gs k)"
  unfolding group_of_def by simp

lemma map_group_of_distinct:
  "distinct rs \<Longrightarrow> length gs = length rs \<Longrightarrow>
     map (\<lambda>k. F (group_of rs gs k)) rs = map (\<lambda>g. F [g]) gs"
proof (induction rs arbitrary: gs)
  case Nil
  then show ?case by simp
next
  case (Cons r rs)
  then obtain g gs' where gs: "gs = g # gs'" by (cases gs) auto
  have tl: "map (\<lambda>k. F (group_of (r # rs) (g # gs') k)) rs = map (\<lambda>k. F (group_of rs gs' k)) rs"
    using Cons.prems(1) by (intro map_cong) (auto simp: group_of_Cons)
  have hd: "group_of (r # rs) (g # gs') r = [g]"
    using Cons.prems(1) by (simp add: group_of_Cons group_of_notin)
  show ?case
    using Cons.IH [of gs'] Cons.prems gs tl hd by simp
qed

lemma sum_over_time_replicate:
  "sum_over_time m n (replicate k (replicate m (replicate n (Some v)))) =
     replicate m (replicate n (Some (real k * v)))"
proof -
  have cell: "nansum (map (\<lambda>g. g ! i ! j) (replicate k (replicate m (replicate n (Some v)))))
                = Some (real k * v)"
    if "i < m" "j < n" for i j
    using that by (simp add: nansum_def nan_to_zero_def sum_list_replicate comp_def)
  show ?thesis
    unfolding sum_over_time_def
    by (rule map_upt_const, rule map_upt_const) (rule cell)
qed

lemma sum_over_time_single:
  assumes "length g = m" "list_all (\<lambda>row. length row = n) g"
  shows "sum_over_time m n [g] = map (map (\<lambda>c. Some (nan_to_zero c))) g"
proof -
  have row: "map (\<lambda>j. nansum (map (\<lambda>g. g ! i ! j) [g])) [0..<n]
               = map (\<lambda>c. Some (nan_to_zero c)) (g ! i)"
    if "i < m" for i
  proof -
    have "length (g ! i) = n" using assms that by (simp add: list_all_length)
    then show ?thesis
      using map_nth_fun [of "\<lambda>c. Some (nan_to_zero c)" "g ! i"] by (simp add: nansum_def)
  qed
  have "sum_over_time m n [g] = map (\<lambda>i. map (\<lambda>c. Some (nan_to_zero c)) (g ! i)) [0..<m]"
    unfolding sum_over_time_def using row by (intro map_cong) auto
  also have "\<dots> = map (map (\<lambda>c. Some (nan_to_zero c))) g"
    using map_nth_fun [of "map (\<lambda>c. Some (nan_to_zero c))" g] assms(1) by simp
  finally show ?thesis .
qed


section \<open>Claims about the Temporal Aggregator\<close>

lemma floor_1D_mono: "a \<le> b \<Longrightarrow> floor_1D a \<le> floor_1D b"
  unfolding floor_1D_def by (simp add: zdiv_mono1)

lemma window_in_range_from:
  assumes "Timestamp 1677 9 22 12 \<le> t" and "t < 2 ^ 63"
  shows "window_in_range t"
proof -
  have day: "floor_1D (Timestamp 1677 9 22 0) = Timestamp 1677 9 22 0" by code_simp
  have noon: "Timestamp 1677 9 22 12 - Timedelta_hours 12 = Timestamp 1677 9 22 0" by code_simp
  have low: "- (2 ^ 63) < Timestamp 1677 9 22 0" by code_simp
  have h12: "0 \<le> Timedelta_hours 12" by (simp add: Timedelta_hours_def)
  have a: "Timestamp 1677 9 22 0 \<le> t - Timedelta_hours 12" using assms(1) noon by linarith
  have "floor_1D (Timestamp 1677 9 22 0) \<le> floor_1D (t - Timedelta_hours 12)"
    using a by (rule floor_1D_mono)
  then have b: "Timestamp 1677 9 22 0 \<le> floor_1D (t - Timedelta_hours 12)"
    unfolding day .
  have c: "floor_1D (t - Timedelta_hours 12) \<le> t - Timedelta_hours 12"
    by (rule floor_1D_le)
  show ?thesis
    unfolding window_in_range_def representable_def
    using assms(2) low h12 a b c by linarith
qed

lemma window_in_range_all:
  "list_all (\<lambda>u. Timestamp 1677 9 22 12 \<le> u \<and> u < 2 ^ 63) ts \<Longrightarrow> list_all window_in_range ts"
  by (induction ts) (auto simp: window_in_range_from)

lemma diary_prec_12z_eq:
  assumes "time_dim ds = ''valid_time''" and "list_all window_in_range (times ds)"
    and "times ds \<noteq> []"
  shows "diary_prec_12z ds =
           Inr \<lparr> time_dim = ''ref_time'',
                 times = sort (remdups (map ref_time_of (times ds))),
                 latitude = latitude ds,
                 longitude = longitude ds,
                 prec = map (\<lambda>k. sum_over_time (length (latitude ds)) (length (longitude ds))
                                    (group_of (map ref_time_of (times ds)) (prec ds) k))
                          (sort (remdups (map ref_time_of (times ds)))),
                 attrs = set_attr aggregation_period (attrs ds),
                 spatial_dims = None,
                 crs = crs ds \<rparr>"
  unfolding diary_prec_12z_def groupby_ref_time_def using assms
  by (simp add: Let_def comp_def)






subsection \<open>The scenario of 24 hours\<close>

lemma keys_from_13:
  "map ref_time_of (hour_times (Timestamp 2025 1 2 13) 24)
     = replicate 23 (Timestamp 2025 1 2 12) @ [Timestamp 2025 1 3 12]"
  by code_simp

lemma keys_from_12:
  "map ref_time_of (hour_times (Timestamp 2025 1 2 12) 24) = replicate 24 (Timestamp 2025 1 2 12)"
  by code_simp

lemma windows_from_13:
  "sort (remdups (replicate 23 (Timestamp 2025 1 2 12) @ [Timestamp 2025 1 3 12]))
     = [Timestamp 2025 1 2 12, Timestamp 2025 1 3 12]"
  by code_simp

lemma windows_from_12:
  "sort (remdups (replicate 24 (Timestamp 2025 1 2 12))) = [Timestamp 2025 1 2 12]"
  by code_simp

lemma count_first_window:
  "count_list (replicate 23 (Timestamp 2025 1 2 12) @ [Timestamp 2025 1 3 12]) (Timestamp 2025 1 2 12) = 23"
  by code_simp

lemma count_second_window:
  "count_list (replicate 23 (Timestamp 2025 1 2 12) @ [Timestamp 2025 1 3 12]) (Timestamp 2025 1 3 12) = 1"
  by code_simp

lemma count_only_window:
  "count_list (replicate 24 (Timestamp 2025 1 2 12)) (Timestamp 2025 1 2 12) = 24"
  by code_simp

lemma hour_times_24_nonempty: "hour_times t0 24 \<noteq> []"
  unfolding hour_times_def by simp

lemma in_range_from_13: "list_all window_in_range (hour_times (Timestamp 2025 1 2 13) 24)"
  by code_simp

lemma in_range_from_12: "list_all window_in_range (hour_times (Timestamp 2025 1 2 12) 24)"
  by code_simp

lemma diary_prec_12z_hourly_ones:
  assumes "list_all window_in_range (hour_times t0 24)"
  shows "diary_prec_12z (hourly_ones t0 24 lats lons) =
           Inr \<lparr> time_dim = ''ref_time'',
                 times = sort (remdups (map ref_time_of (hour_times t0 24))),
                 latitude = lats,
                 longitude = lons,
                 prec = map (\<lambda>k. sum_over_time (length lats) (length lons)
                                    (group_of (map ref_time_of (hour_times t0 24))
                                       (replicate 24 (replicate (length lats)
                                          (replicate (length lons) (Some 1)))) k))
                          (sort (remdups (map ref_time_of (hour_times t0 24)))),
                 attrs = [aggregation_period],
                 spatial_dims = None,
                 crs = None \<rparr>"
  using diary_prec_12z_eq [of "hourly_ones t0 24 lats lons"] assms hour_times_24_nonempty [of t0]
  by (simp add: hourly_ones_def set_attr_def del: replicate_Suc replicate_append_same)

text \<open>
  Claim C2, as amended. The 24 hourly grids from 2025-01-02T13:00 to 2025-01-03T12:00,
  every cell 1.0, aggregate to two windows: 2025-01-02T12:00 with every cell 23.0 and
  2025-01-03T12:00 with every cell 1.0, since the record of 12:00 opens the next window.
  The 24 grids from 2025-01-02T12:00 to 2025-01-03T11:00 aggregate to the one window
  2025-01-02T12:00 with every cell 24.0.
\<close>

theorem C2_two_windows:
  "diary_prec_12z (hourly_ones (Timestamp 2025 1 2 13) 24 lats lons) =
     Inr \<lparr> time_dim = ''ref_time'',
           times = [Timestamp 2025 1 2 12, Timestamp 2025 1 3 12],
           latitude = lats, longitude = lons,
           prec = [replicate (length lats) (replicate (length lons) (Some 23)),
                   replicate (length lats) (replicate (length lons) (Some 1))],
           attrs = [aggregation_period], spatial_dims = None, crs = None \<rparr>
   \<and> diary_prec_12z (hourly_ones (Timestamp 2025 1 2 12) 24 lats lons) =
     Inr \<lparr> time_dim = ''ref_time'',
           times = [Timestamp 2025 1 2 12],
           latitude = lats, longitude = lons,
           prec = [replicate (length lats) (replicate (length lons) (Some 24))],
           attrs = [aggregation_period], spatial_dims = None, crs = None \<rparr>"
proof -
  let ?G = "replicate (length lats) (replicate (length lons) (Some (1::real)))"
  let ?ks = "replicate 23 (Timestamp 2025 1 2 12) @ [Timestamp 2025 1 3 12]"
  let ?ks' = "replicate 24 (Timestamp 2025 1 2 12)"
  have len: "length ?ks = 24" "length ?ks' = 24" by simp_all
  have g1: "group_of ?ks (replicate 24 ?G) (Timestamp 2025 1 2 12) = replicate 23 ?G"
    using group_of_replicate [of ?ks ?G "Timestamp 2025 1 2 12"]
    unfolding count_first_window len .
  have g2: "group_of ?ks (replicate 24 ?G) (Timestamp 2025 1 3 12) = replicate 1 ?G"
    using group_of_replicate [of ?ks ?G "Timestamp 2025 1 3 12"]
    unfolding count_second_window len .
  have g3: "group_of ?ks' (replicate 24 ?G) (Timestamp 2025 1 2 12) = replicate 24 ?G"
    using group_of_replicate [of ?ks' ?G "Timestamp 2025 1 2 12"]
    unfolding count_only_window len .
  have a: "diary_prec_12z (hourly_ones (Timestamp 2025 1 2 13) 24 lats lons) =
     Inr \<lparr> time_dim = ''ref_time'',
           times = [Timestamp 2025 1 2 12, Timestamp 2025 1 3 12],
           latitude = lats, longitude = lons,
           prec = [replicate (length lats) (replicate (length lons) (Some 23)),
                   replicate (length lats) (replicate (length lons) (Some 1))],
           attrs = [aggregation_period], spatial_dims = None, crs = None \<rparr>"
    unfolding diary_prec_12z_hourly_ones [OF in_range_from_13]
    by (simp add: keys_from_13 windows_from_13 g1 g2
          sum_over_time_replicate del: replicate_Suc replicate_append_same)
  have b: "diary_prec_12z (hourly_ones (Timestamp 2025 1 2 12) 24 lats lons) =
     Inr \<lparr> time_dim = ''ref_time'',
           times = [Timestamp 2025 1 2 12],
           latitude = lats, longitude = lons,
           prec = [replicate (length lats) (replicate (length lons) (Some 24))],
           attrs = [aggregation_period], spatial_dims = None, crs = None \<rparr>"
    unfolding diary_prec_12z_hourly_ones [OF in_range_from_12]
    by (simp add: keys_from_12 windows_from_12 g3
          sum_over_time_replicate del: replicate_Suc replicate_append_same)
  from a b show ?thesis by (rule conjI)
qed

text \<open>The claim as stated fails on a grid of one latitude and two longitudes.\<close>

theorem C2_counterexample:
  "diary_prec_12z (hourly_ones (Timestamp 2025 1 2 13) 24 [0] [0, 1]) =
     Inr \<lparr> time_dim = ''ref_time'',
           times = [Timestamp 2025 1 2 12, Timestamp 2025 1 3 12],
           latitude = [0], longitude = [0, 1],
           prec = [[[Some 23, Some 23]], [[Some 1, Some 1]]],
           attrs = [aggregation_period], spatial_dims = None, crs = None \<rparr>"
  by code_simp

subsection \<open>Aggregating what is aggregated\<close>

text \<open>
  Claim C7, as amended. The aggregator is not idempotent: what it returns has the time
  dimension \<open>ref_time\<close> and no \<open>valid_time\<close>, and applying it to that raises
  AttributeError. On a dataset that has its times under \<open>valid_time\<close>, ascending, from
  1677-09-22T12:00 on and at most one in each window (a single record at 12:00, say), it
  returns one record for each record of the input, in order, keyed by the start of the
  record's window (the record's own time when all times are at 12:00), under the time
  dimension \<open>ref_time\<close> and with the tag of the aggregation among the attributes of the
  input; a cell that is not null keeps its value and a null cell becomes 0.
\<close>

theorem C7_already_aggregated:
  assumes "time_dim ds = ''valid_time''" and "times ds \<noteq> []" and "well_shaped ds"
    and "sorted (times ds)" and "distinct (map ref_time_of (times ds))"
    and "list_all (\<lambda>u. Timestamp 1677 9 22 12 \<le> u \<and> u < 2 ^ 63) (times ds)"
  shows "diary_prec_12z ds =
           Inr \<lparr> time_dim = ''ref_time'',
                 times = map ref_time_of (times ds),
                 latitude = latitude ds,
                 longitude = longitude ds,
                 prec = map (map (map (\<lambda>c. Some (nan_to_zero c)))) (prec ds),
                 attrs = set_attr aggregation_period (attrs ds),
                 spatial_dims = None,
                 crs = crs ds \<rparr>
         \<and> (list_all (\<lambda>t. t mod Timedelta_hours 24 = Timedelta_hours 12) (times ds)
              \<longrightarrow> map ref_time_of (times ds) = times ds)
         \<and> diary_prec_12z
              \<lparr> time_dim = ''ref_time'',
                times = map ref_time_of (times ds),
                latitude = latitude ds,
                longitude = longitude ds,
                prec = map (map (map (\<lambda>c. Some (nan_to_zero c)))) (prec ds),
                attrs = set_attr aggregation_period (attrs ds),
                spatial_dims = None,
                crs = crs ds \<rparr>
             = Inl (AttributeError ''valid_time'')"
proof -
  let ?rs = "map ref_time_of (times ds)"
  let ?m = "length (latitude ds)" and ?n = "length (longitude ds)"
  have keys: "sort (remdups ?rs) = ?rs"
    using assms(4,5) by (simp add: sorted_map_ref_time_of sorted_sort_id)
  have len: "length (prec ds) = length ?rs"
    using assms(3) by (simp add: well_shaped_def)
  have ok: "list_all window_in_range (times ds)" using assms(6) by (rule window_in_range_all)
  have "map (\<lambda>k. sum_over_time ?m ?n (group_of ?rs (prec ds) k)) ?rs
        = map (\<lambda>g. sum_over_time ?m ?n [g]) (prec ds)"
    using map_group_of_distinct [OF assms(5) len] .
  also have "\<dots> = map (map (map (\<lambda>c. Some (nan_to_zero c)))) (prec ds)"
    using assms(3) by (intro map_cong) (auto simp: well_shaped_def list_all_iff sum_over_time_single)
  finally have grids: "map (\<lambda>k. sum_over_time ?m ?n (group_of ?rs (prec ds) k)) ?rs
        = map (map (map (\<lambda>c. Some (nan_to_zero c)))) (prec ds)" .
  have same: "list_all (\<lambda>t. t mod Timedelta_hours 24 = Timedelta_hours 12) (times ds)
              \<longrightarrow> map ref_time_of (times ds) = times ds"
    by (auto simp: list_all_iff ref_time_of_at_noon intro: map_idI)
  have first: "diary_prec_12z ds =
           Inr \<lparr> time_dim = ''ref_time'',
                 times = map ref_time_of (times ds),
                 latitude = latitude ds,
                 longitude = longitude ds,
                 prec = map (map (map (\<lambda>c. Some (nan_to_zero c)))) (prec ds),
                 attrs = set_attr aggregation_period (attrs ds),
                 spatial_dims = None,
                 crs = crs ds \<rparr>"
    unfolding diary_prec_12z_eq [OF assms(1) ok assms(2)] keys grids ..
  have again: "diary_prec_12z
              \<lparr> time_dim = ''ref_time'',
                times = map ref_time_of (times ds),
                latitude = latitude ds,
                longitude = longitude ds,
                prec = map (map (map (\<lambda>c. Some (nan_to_zero c)))) (prec ds),
                attrs = set_attr aggregation_period (attrs ds),
                spatial_dims = None,
                crs = crs ds \<rparr>
             = Inl (AttributeError ''valid_time'')"
    by (simp add: diary_prec_12z_def)
  from first same again show ?thesis by blast
qed

theorem C7_already_aggregated_witness:
  "time_dim two_noons = ''valid_time'' \<and> times two_noons \<noteq> [] \<and> well_shaped two_noons
   \<and> sorted (times two_noons) \<and> distinct (map ref_time_of (times two_noons))
   \<and> list_all (\<lambda>u. Timestamp 1677 9 22 12 \<le> u \<and> u < 2 ^ 63) (times two_noons)
   \<and> list_all (\<lambda>t. t mod Timedelta_hours 24 = Timedelta_hours 12) (times two_noons)
   \<and> diary_prec_12z two_noons =
       Inr \<lparr> time_dim = ''ref_time'',
             times = [Timestamp 2025 1 2 12, Timestamp 2025 1 3 12],
             latitude = [0], longitude = [0, 1],
             prec = [[[Some 5, Some 0]], [[Some 7, Some 2]]],
             attrs = [aggregation_period], spatial_dims = None, crs = None \<rparr>"
proof -
  have h1: "time_dim two_noons = ''valid_time''" by (simp add: two_noons_def)
  have h2: "times two_noons \<noteq> []" by (simp add: two_noons_def)
  have h3: "well_shaped two_noons" by (simp add: two_noons_def well_shaped_def)
  have h4: "sorted (times two_noons)" by code_simp
  have h5: "distinct (map ref_time_of (times two_noons))" by code_simp
  have h6: "list_all (\<lambda>t. t mod Timedelta_hours 24 = Timedelta_hours 12) (times two_noons)"
    by code_simp
  have h7: "list_all (\<lambda>u. Timestamp 1677 9 22 12 \<le> u \<and> u < 2 ^ 63) (times two_noons)"
    by code_simp
  note inst = C7_already_aggregated [OF h1 h2 h3 h4 h5 h7]
  have same: "map ref_time_of (times two_noons) = times two_noons"
    using inst h6 by blast
  have "diary_prec_12z two_noons =
          Inr \<lparr> time_dim = ''ref_time'', times = times two_noons,
                latitude = latitude two_noons, longitude = longitude two_noons,
                prec = map (map (map (\<lambda>c. Some (nan_to_zero c)))) (prec two_noons),
                attrs = set_attr aggregation_period (attrs two_noons),
                spatial_dims = None, crs = crs two_noons \<rparr>"
    using inst [THEN conjunct1] same by simp
  then have "diary_prec_12z two_noons =
       Inr \<lparr> time_dim = ''ref_time'',
             times = [Timestamp 2025 1 2 12, Timestamp 2025 1 3 12],
             latitude = [0], longitude = [0, 1],
             prec = [[[Some 5, Some 0]], [[Some 7, Some 2]]],
             attrs = [aggregation_period], spatial_dims = None, crs = None \<rparr>"
    by (simp add: two_noons_def nan_to_zero_def set_attr_def)
  with h1 h2 h3 h4 h5 h6 h7 show ?thesis by simp
qed

text \<open>
  The claim as stated fails on a single record at 12:00 with a null cell: the null cell
  comes back as 0, and the aggregator applied once more to what it returned raises
  AttributeError.
\<close>

theorem C7_counterexample:
  "diary_prec_12z noon_record =
     Inr \<lparr> time_dim = ''ref_time'', times = [Timestamp 2025 1 2 12],
           latitude = [0], longitude = [0, 1],
           prec = [[[Some 5, Some 0]]],
           attrs = [aggregation_period], spatial_dims = None, crs = None \<rparr>
   \<and> prec noon_record = [[[Some 5, None]]]
   \<and> diary_prec_12z
        \<lparr> time_dim = ''ref_time'', times = [Timestamp 2025 1 2 12],
          latitude = [0], longitude = [0, 1],
          prec = [[[Some 5, Some 0]]],
          attrs = [aggregation_period], spatial_dims = None, crs = None \<rparr>
       = Inl (AttributeError ''valid_time'')"
  by code_simp

section \<open>Claims about the Coordinate Normalizer\<close>

lemma map_insort_key: "map f (insort_key f x xs) = insort (f x) (map f xs)"
  by (induction xs) auto

lemma map_sort_key: "map f (sort_key f xs) = sort (map f xs)"
  by (induction xs) (auto simp: map_insort_key)

lemma isel_argsort: "isel (argsort xs) xs = sort xs"
  unfolding isel_def argsort_def by (simp add: map_sort_key map_nth)

lemma round_half_even_le: "y \<le> of_int N \<Longrightarrow> round_half_even y \<le> N"
proof -
  assume le: "y \<le> of_int N"
  show ?thesis
  proof (cases "y = of_int N")
    case True
    then show ?thesis by (simp add: round_half_even_def)
  next
    case False
    with le have "y < of_int N" by simp
    then have "\<lfloor>y\<rfloor> < N" by (simp add: floor_less_iff)
    then show ?thesis by (auto simp: round_half_even_def Let_def)
  qed
qed

lemma round_half_even_ge: "of_int N \<le> y \<Longrightarrow> N \<le> round_half_even y"
proof -
  assume "of_int N \<le> y"
  then have "N \<le> \<lfloor>y\<rfloor>" by (simp add: le_floor_iff)
  then show ?thesis by (auto simp: round_half_even_def Let_def)
qed

lemma fl_up_scaled: "\<exists>k. fl_up n x = of_int (round_half_even (x * 2 ^ k)) / 2 ^ k"
proof (induction n arbitrary: x)
  case 0
  show ?case by (rule exI [of _ 0]) simp
next
  case (Suc n)
  show ?case
  proof (cases "\<bar>x\<bar> < 2 ^ 52")
    case True
    from Suc [of "2 * x"] obtain k where
      "fl_up n (2 * x) = of_int (round_half_even (2 * x * 2 ^ k)) / 2 ^ k" by blast
    then have "fl_up (Suc n) x = of_int (round_half_even (x * 2 ^ Suc k)) / 2 ^ Suc k"
      using True by (simp add: ac_simps)
    then show ?thesis by blast
  next
    case False
    then have "fl_up (Suc n) x = of_int (round_half_even (x * 2 ^ 0)) / 2 ^ 0" by simp
    then show ?thesis by blast
  qed
qed

lemma fl_up_le: "x \<le> of_int c \<Longrightarrow> fl_up n x \<le> of_int c"
proof -
  assume le: "x \<le> of_int c"
  obtain k where k: "fl_up n x = of_int (round_half_even (x * 2 ^ k)) / 2 ^ k"
    using fl_up_scaled by blast
  have "x * 2 ^ k \<le> of_int (c * 2 ^ k)" using le by simp
  then have "round_half_even (x * 2 ^ k) \<le> c * 2 ^ k" by (rule round_half_even_le)
  then have "(of_int (round_half_even (x * 2 ^ k)) :: real) \<le> of_int (c * 2 ^ k)"
    by (simp only: of_int_le_iff)
  then show ?thesis unfolding k by (simp add: field_simps)
qed

lemma fl_up_ge: "of_int c \<le> x \<Longrightarrow> of_int c \<le> fl_up n x"
proof -
  assume le: "of_int c \<le> x"
  obtain k where k: "fl_up n x = of_int (round_half_even (x * 2 ^ k)) / 2 ^ k"
    using fl_up_scaled by blast
  have "of_int (c * 2 ^ k) \<le> x * 2 ^ k" using le by simp
  then have "c * 2 ^ k \<le> round_half_even (x * 2 ^ k)" by (rule round_half_even_ge)
  then have "(of_int (c * 2 ^ k) :: real) \<le> of_int (round_half_even (x * 2 ^ k))"
    by (simp only: of_int_le_iff)
  then show ?thesis unfolding k by (simp add: field_simps)
qed

lemma float64_le: "\<bar>x\<bar> < 2 ^ 53 \<Longrightarrow> x \<le> of_int c \<Longrightarrow> 0 \<le> c \<or> x \<noteq> 0 \<Longrightarrow> float64 x \<le> of_int c"
  unfolding float64_def using fl_up_le [of x c 1074] by auto

lemma float64_ge: "\<bar>x\<bar> < 2 ^ 53 \<Longrightarrow> of_int c \<le> x \<Longrightarrow> c \<le> 0 \<or> x \<noteq> 0 \<Longrightarrow> of_int c \<le> float64 x"
  unfolding float64_def using fl_up_ge [of c x 1074] by auto

lemma float64_of_int: "\<bar>of_int c :: real\<bar> < 2 ^ 53 \<Longrightarrow> float64 (of_int c) = of_int c"
  using float64_le [of "of_int c" c] float64_ge [of "of_int c" c]
  unfolding float64_def by (cases "c = 0") auto

lemma fmod_range:
  assumes "0 < y"
  shows "\<bar>fmod x y\<bar> < y" and "0 \<le> x \<Longrightarrow> 0 \<le> fmod x y" and "x \<le> 0 \<Longrightarrow> fmod x y \<le> 0"
proof -
  let ?q = "x / y"
  have x: "x = ?q * y" using assms by simp
  have f1: "of_int \<lfloor>?q\<rfloor> \<le> ?q" "?q < of_int \<lfloor>?q\<rfloor> + 1" by linarith+
  have c1: "?q \<le> of_int \<lceil>?q\<rceil>" "of_int \<lceil>?q\<rceil> - 1 < ?q" by linarith+
  have m1: "fmod x y = (?q - of_int \<lfloor>?q\<rfloor>) * y" if "0 \<le> ?q"
    using that x unfolding fmod_def by (simp add: algebra_simps)
  have m2: "fmod x y = (?q - of_int \<lceil>?q\<rceil>) * y" if "\<not> 0 \<le> ?q"
    using that x unfolding fmod_def by (simp add: algebra_simps)
  show "\<bar>fmod x y\<bar> < y"
  proof (cases "0 \<le> ?q")
    case True
    have "0 \<le> ?q - of_int \<lfloor>?q\<rfloor>" "?q - of_int \<lfloor>?q\<rfloor> < 1" using f1 by linarith+
    then have "0 \<le> (?q - of_int \<lfloor>?q\<rfloor>) * y" "(?q - of_int \<lfloor>?q\<rfloor>) * y < 1 * y"
      using assms by (simp_all add: mult_strict_right_mono)
    then show ?thesis using m1 [OF True] by simp
  next
    case False
    have d: "?q - of_int \<lceil>?q\<rceil> \<le> 0" "- 1 < ?q - of_int \<lceil>?q\<rceil>" using c1 by linarith+
    have "(?q - of_int \<lceil>?q\<rceil>) * y \<le> 0" using d(1) assms by (simp add: mult_le_0_iff)
    moreover have "(- 1) * y < (?q - of_int \<lceil>?q\<rceil>) * y"
      using d(2) assms by (rule mult_strict_right_mono)
    ultimately show ?thesis using m2 [OF False] by simp
  qed
  show "0 \<le> fmod x y" if "0 \<le> x"
  proof -
    have q: "0 \<le> ?q" using that assms by simp
    have "0 \<le> ?q - of_int \<lfloor>?q\<rfloor>" using f1 by linarith
    then have "0 \<le> (?q - of_int \<lfloor>?q\<rfloor>) * y" using assms by simp
    then show ?thesis using m1 [OF q] by simp
  qed
  show "fmod x y \<le> 0" if "x \<le> 0"
  proof (cases "0 \<le> ?q")
    case True
    then have "x = 0" using that assms by (simp add: zero_le_divide_iff) 
    then show ?thesis by (simp add: fmod_def)
  next
    case False
    have "?q - of_int \<lceil>?q\<rceil> \<le> 0" using c1 by linarith
    then have "(?q - of_int \<lceil>?q\<rceil>) * y \<le> 0" using assms by (simp add: mult_le_0_iff)
    then show ?thesis using m2 [OF False] by simp
  qed
qed

lemma py_mod_360_range: "0 \<le> py_mod x 360 \<and> py_mod x 360 \<le> 360"
proof -
  let ?m = "fmod x 360"
  have abs: "\<bar>?m\<bar> < 360" by (rule fmod_range) simp
  show ?thesis
  proof (cases "?m < 0")
    case True
    then have eq: "py_mod x 360 = float64 (?m + 360)" by (simp add: py_mod_def Let_def)
    have b: "0 \<le> ?m + 360" "?m + 360 \<le> 360" "\<bar>?m + 360\<bar> < 2 ^ 53" using True abs by simp_all
    have "of_int 0 \<le> float64 (?m + 360)" using b by (intro float64_ge) simp_all
    moreover have "float64 (?m + 360) \<le> of_int 360" using b by (intro float64_le) simp_all
    ultimately show ?thesis unfolding eq by simp
  next
    case False
    then have "py_mod x 360 = ?m" by (simp add: py_mod_def Let_def)
    then show ?thesis using False abs by simp
  qed
qed

lemma remap_longitude_range: "- 180 \<le> remap_longitude x \<and> remap_longitude x \<le> 180"
proof -
  let ?r = "py_mod (float64 (x + 180)) 360"
  have r: "0 \<le> ?r" "?r \<le> 360" using py_mod_360_range by simp_all
  then have b: "of_int (- 180) \<le> ?r - 180" "?r - 180 \<le> of_int 180" "\<bar>?r - 180\<bar> < 2 ^ 53"
    by simp_all
  have "of_int (- 180) \<le> float64 (?r - 180)" using b by (intro float64_ge) simp_all
  moreover have "float64 (?r - 180) \<le> of_int 180" using b by (intro float64_le) simp_all
  ultimately show ?thesis unfolding remap_longitude_def by simp
qed

lemma fl_up_steps:
  "k \<le> n \<Longrightarrow> \<bar>x\<bar> * 2 ^ k < 2 ^ 53 \<Longrightarrow> 2 ^ 52 \<le> \<bar>x\<bar> * 2 ^ k
     \<Longrightarrow> fl_up n x = of_int (round_half_even (x * 2 ^ k)) / 2 ^ k"
proof (induction k arbitrary: n x)
  case 0
  then show ?case by (cases n) simp_all
next
  case (Suc k)
  then obtain n' where n: "n = Suc n'" "k \<le> n'" by (cases n) auto
  have "(1::real) \<le> 2 ^ k" by simp
  then have "\<bar>x\<bar> * 1 \<le> \<bar>x\<bar> * 2 ^ k" by (intro mult_left_mono) simp_all
  with Suc.prems(2) have small: "\<bar>x\<bar> < 2 ^ 52" by simp
  have "fl_up n' (2 * x) = of_int (round_half_even (2 * x * 2 ^ k)) / 2 ^ k"
    using Suc.prems n by (intro Suc.IH) (simp_all add: abs_mult ac_simps)
  then show ?case using small n by (simp add: ac_simps)
qed

lemma float64_steps:
  "k \<le> 1074 \<Longrightarrow> \<bar>x\<bar> * 2 ^ k < 2 ^ 53 \<Longrightarrow> 2 ^ 52 \<le> \<bar>x\<bar> * 2 ^ k
     \<Longrightarrow> float64 x = of_int (round_half_even (x * 2 ^ k)) / 2 ^ k"
proof -
  assume k: "k \<le> 1074" and hi: "\<bar>x\<bar> * 2 ^ k < 2 ^ 53" and lo: "2 ^ 52 \<le> \<bar>x\<bar> * 2 ^ k"
  have "(1::real) \<le> 2 ^ k" by simp
  then have "\<bar>x\<bar> * 1 \<le> \<bar>x\<bar> * 2 ^ k" by (intro mult_left_mono) simp_all
  with hi have "\<bar>x\<bar> < 2 ^ 53" by simp
  moreover have "x \<noteq> 0" using lo by auto
  ultimately show ?thesis
    unfolding float64_def using fl_up_steps [OF k hi lo] by simp
qed

lemma float64_numeral [simp]:
  "(numeral k :: real) < 2 ^ 53 \<Longrightarrow> float64 (numeral k) = numeral k"
  "(numeral k :: real) < 2 ^ 53 \<Longrightarrow> float64 (- numeral k) = - numeral k"
  using float64_of_int [of "numeral k"] float64_of_int [of "- numeral k"] by simp_all

lemma float64_0 [simp]: "float64 0 = 0"
  by (simp add: float64_def)

lemma remap_longitude_below_minus_180: "remap_longitude (- 180 - 1 / 2 ^ 45) = 180"
proof -
  let ?t = "1 / 2 ^ 45 :: real"
  have s1: "- 180 - ?t + 180 = - ?t" by simp
  have s2: "float64 (- ?t) = - ?t"
    using float64_steps [of 97 "- ?t"] by (simp add: round_half_even_def Let_def)
  have s3: "fmod (- ?t) 360 = - ?t"
    by (simp add: fmod_def ceiling_eq_iff)
  have s4: "py_mod (- ?t) 360 = float64 (- ?t + 360)"
    unfolding py_mod_def s3 by (simp add: Let_def)
  have s5: "float64 (- ?t + 360) = 360"
    using float64_steps [of 44 "- ?t + 360"] by (simp add: round_half_even_def Let_def)
  show ?thesis
    unfolding remap_longitude_def s1 s2 s4 s5 by simp
qed

lemma remap_longitude_examples:
  "map remap_longitude [0, 90, 270, 180, 360] = [0, 90, - 90, - 180, 0]"
  by (simp add: remap_longitude_def py_mod_def fmod_def Let_def)

lemma h_longitude_fix:
  "h_longitude (fix_coordinates ds) =
     sort (if list_ex (\<lambda>x. 180 < x) (h_longitude ds)
           then map remap_longitude (h_longitude ds) else h_longitude ds)"
  unfolding fix_coordinates_def sortby_latitude_def sortby_longitude_def
  by (simp add: Let_def isel_argsort)

lemma h_latitude_fix: "h_latitude (fix_coordinates ds) = sort (h_latitude ds)"
  unfolding fix_coordinates_def sortby_latitude_def sortby_longitude_def
  by (simp add: Let_def isel_argsort)

text \<open>
  Claim C5, as amended. For every input grid both axes of the output are ascending: the
  latitudes are those of the input, sorted, and the longitudes are those of the input,
  sorted, after the remapping \<open>((lon + 180) mod 360) - 180\<close> when some longitude of the
  input exceeds 180 and as they are otherwise. The latitude axis is strictly ascending
  exactly when the latitudes of the input are distinct, the longitude axis exactly when
  the (remapped) longitudes are. When some longitude of the input exceeds 180, every
  longitude of the output is in \<open>[-180, 180]\<close>, both ends included; otherwise every one
  is at most 180.
\<close>

theorem C5_normalized_axes:
  "h_latitude (fix_coordinates ds) = sort (h_latitude ds)
   \<and> h_longitude (fix_coordinates ds) =
       sort (if list_ex (\<lambda>x. 180 < x) (h_longitude ds)
             then map remap_longitude (h_longitude ds) else h_longitude ds)
   \<and> sorted (h_latitude (fix_coordinates ds))
   \<and> sorted (h_longitude (fix_coordinates ds))
   \<and> sorted_wrt (<) (h_latitude (fix_coordinates ds)) = distinct (h_latitude ds)
   \<and> sorted_wrt (<) (h_longitude (fix_coordinates ds))
       = distinct (if list_ex (\<lambda>x. 180 < x) (h_longitude ds)
                   then map remap_longitude (h_longitude ds) else h_longitude ds)
   \<and> list_all (\<lambda>y. if list_ex (\<lambda>x. 180 < x) (h_longitude ds)
                    then - 180 \<le> y \<and> y \<le> 180 else y \<le> 180)
        (h_longitude (fix_coordinates ds))"
proof -
  have range: "list_all (\<lambda>y. if list_ex (\<lambda>x. 180 < x) (h_longitude ds)
                    then - 180 \<le> y \<and> y \<le> 180 else y \<le> 180)
        (h_longitude (fix_coordinates ds))"
  proof (cases "list_ex (\<lambda>x. 180 < x) (h_longitude ds)")
    case True
    then show ?thesis
      unfolding h_longitude_fix using remap_longitude_range
      by (auto simp: list_all_iff)
  next
    case False
    then show ?thesis
      unfolding h_longitude_fix by (auto simp: list_all_iff list_ex_iff not_less)
  qed
  show ?thesis
    using range by (simp add: h_latitude_fix h_longitude_fix strict_sorted_iff)
qed

theorem C5_normalized_axes_witness:
  "fix_coordinates grid_0_270 =
     \<lparr> h_latitude = [- 10, 10], h_longitude = [- 90, 0, 90], h_valid_time = Timestamp 2025 1 2 13,
       h_prec = [[Some 6, Some 4, Some 5], [Some 3, Some 1, Some 2]] \<rparr>
   \<and> list_all (\<lambda>y. - 180 \<le> y \<and> y \<le> 180) (h_longitude (fix_coordinates grid_0_270))"
proof -
  have ex: "list_ex (\<lambda>x. 180 < x) (h_longitude grid_0_270)" by (simp add: grid_0_270_def)
  have v: "fix_coordinates grid_0_270 =
     \<lparr> h_latitude = [- 10, 10], h_longitude = [- 90, 0, 90], h_valid_time = Timestamp 2025 1 2 13,
       h_prec = [[Some 6, Some 4, Some 5], [Some 3, Some 1, Some 2]] \<rparr>"
    by (simp add: fix_coordinates_def sortby_latitude_def sortby_longitude_def argsort_def
          isel_def grid_0_270_def remap_longitude_def py_mod_def fmod_def Let_def)
  have "list_all (\<lambda>y. if list_ex (\<lambda>x. 180 < x) (h_longitude grid_0_270)
                    then - 180 \<le> y \<and> y \<le> 180 else y \<le> 180)
        (h_longitude (fix_coordinates grid_0_270))"
    using C5_normalized_axes [of grid_0_270] by blast
  then have "list_all (\<lambda>y. - 180 \<le> y \<and> y \<le> 180) (h_longitude (fix_coordinates grid_0_270))"
    using ex by simp
  with v show ?thesis by (rule conjI)
qed

text \<open>
  The claim as stated fails on the longitudes 0, 90, 180, which stay as they are with 180
  among them, on the longitudes 0, 180, 360, where 0 and 360 both become 0, and on a
  longitude just below -180 next to one beyond 180: its remainder rounds to 360 and it
  becomes 180.
\<close>

theorem C5_counterexample:
  "h_longitude (fix_coordinates grid_0_180) = [0, 90, 180]
   \<and> h_longitude (fix_coordinates grid_0_360) = [- 180, 0, 0]
   \<and> h_longitude (fix_coordinates grid_below_minus_180) = [- 90, 180]"
proof -
  have r270: "remap_longitude 270 = - 90"
    by (simp add: remap_longitude_def py_mod_def fmod_def Let_def)
  have lon: "h_longitude grid_below_minus_180 = [- 180 - 1 / 2 ^ 45, 270]"
    unfolding grid_below_minus_180_def by (simp only: hourly.select_convs)
  have ex: "list_ex (\<lambda>x. 180 < x) (h_longitude grid_below_minus_180)"
    by (simp add: grid_below_minus_180_def)
  have "h_longitude (fix_coordinates grid_below_minus_180)
          = sort (map remap_longitude (h_longitude grid_below_minus_180))"
    by (simp only: h_longitude_fix ex if_True)
  also have "\<dots> = sort [180, - 90]"
    by (simp only: lon list.map remap_longitude_below_minus_180 r270)
  also have "\<dots> = [- 90, 180]" by simp
  finally have "h_longitude (fix_coordinates grid_below_minus_180) = [- 90, 180]" .
  moreover have "h_longitude (fix_coordinates grid_0_180) = [0, 90, 180]"
    by (simp add: h_longitude_fix grid_0_180_def)
  moreover have "h_longitude (fix_coordinates grid_0_360) = [- 180, 0, 0]"
    by (simp add: h_longitude_fix grid_0_360_def remap_longitude_def py_mod_def fmod_def Let_def)
  ultimately show ?thesis by simp
qed

section \<open>Claims about the Capital Resolver\<close>

text \<open>
  Claim C8, as amended. When the boundary dataset is read, the resolver raises nothing
  and returns, for every region code of the mapping, exactly the rows of the dataset
  whose code is that code and whose name is the mapping's entry, in the order of the
  dataset and as many as there are: some row for the code if and only if the dataset has
  such a row, none when no name matches, one when one row matches.
\<close>

theorem C8_resolver_rows:
  assumes "read_file e shapefile_path = Inr gdf" and "capitals_dict uf = Some name"
  shows "\<exists>out. extract_capitals_from_shapefile e shapefile_path capitals_dict = Inr out
           \<and> features out = filter (is_capital capitals_dict) (features gdf)
           \<and> filter (\<lambda>row. SIGLA_UF row = uf) (features out)
               = filter (\<lambda>row. SIGLA_UF row = uf \<and> NM_MUN row = name) (features gdf)
           \<and> list_ex (\<lambda>row. SIGLA_UF row = uf) (features out)
               = list_ex (\<lambda>row. SIGLA_UF row = uf \<and> NM_MUN row = name) (features gdf)"
proof -
  let ?out = "gdf\<lparr> features := filter (is_capital capitals_dict) (features gdf) \<rparr>"
  have run: "extract_capitals_from_shapefile e shapefile_path capitals_dict = Inr ?out"
    unfolding extract_capitals_from_shapefile_def using assms(1) by simp
  have same: "(SIGLA_UF row = uf \<and> is_capital capitals_dict row)
                = (SIGLA_UF row = uf \<and> NM_MUN row = name)" for row
    unfolding is_capital_def using assms(2) by auto
  have rows: "filter (\<lambda>row. SIGLA_UF row = uf) (features ?out)
               = filter (\<lambda>row. SIGLA_UF row = uf \<and> NM_MUN row = name) (features gdf)"
    using same by (simp add: conj_commute)
  have ex: "list_ex (\<lambda>row. SIGLA_UF row = uf) (features ?out)
               = list_ex (\<lambda>row. SIGLA_UF row = uf \<and> NM_MUN row = name) (features gdf)"
    using same by (auto simp: list_ex_iff)
  show ?thesis using run rows ex by simp
qed

theorem C8_resolver_rows_witness:
  "read_file (env_with boundary_demo) ''BR.shp'' = Inr boundary_demo
   \<and> mapping_demo ''SP'' = Some ''Sao Paulo''
   \<and> (\<exists>out. extract_capitals_from_shapefile (env_with boundary_demo) ''BR.shp'' mapping_demo = Inr out
         \<and> filter (\<lambda>row. SIGLA_UF row = ''SP'') (features out)
             = [\<lparr> SIGLA_UF = ''SP'', NM_MUN = ''Sao Paulo'', geometry = square \<rparr>])"
proof -
  have h1: "read_file (env_with boundary_demo) ''BR.shp'' = Inr boundary_demo"
    by (simp add: env_with_def)
  have h2: "mapping_demo ''SP'' = Some ''Sao Paulo''" by (simp add: mapping_demo_def)
  have v: "filter (\<lambda>row. SIGLA_UF row = ''SP'' \<and> NM_MUN row = ''Sao Paulo'') (features boundary_demo)
             = [\<lparr> SIGLA_UF = ''SP'', NM_MUN = ''Sao Paulo'', geometry = square \<rparr>]"
    by (simp add: boundary_demo_def)
  from C8_resolver_rows [where capitals_dict = mapping_demo and uf = "''SP''", OF h1 h2]
  obtain out where
    "extract_capitals_from_shapefile (env_with boundary_demo) ''BR.shp'' mapping_demo = Inr out"
    "filter (\<lambda>row. SIGLA_UF row = ''SP'') (features out)
       = filter (\<lambda>row. SIGLA_UF row = ''SP'' \<and> NM_MUN row = ''Sao Paulo'') (features boundary_demo)"
    by blast
  with h1 h2 v show ?thesis by auto
qed

text \<open>
  The claim as stated fails on a dataset that holds the capital in two rows: both are
  returned.
\<close>

theorem C8_counterexample:
  "extract_capitals_from_shapefile (env_with boundary_two_parts) ''BR.shp'' mapping_demo
     = Inr boundary_two_parts
   \<and> map SIGLA_UF (features boundary_two_parts) = [''SP'', ''SP'']
   \<and> map NM_MUN (features boundary_two_parts) = [''Sao Paulo'', ''Sao Paulo'']"
  by (simp add: extract_capitals_from_shapefile_def env_with_def boundary_two_parts_def
        mapping_demo_def is_capital_def)

section \<open>Claims about the Spatial Masker and the Timeseries Extractor\<close>

lemma fst_mask_data:
  "fst (mask_data e ds msk) = (case geo_df_of e msk of Inl err \<Rightarrow> ds | Inr g \<Rightarrow> stamp_crs ds)"
  unfolding mask_data_def stamp_crs_def by (simp add: Let_def split: sum.splits)

lemma fst_mask_data_frame: "fst (mask_data e ds (MaskFrame g)) = stamp_crs ds"
  by (simp add: fst_mask_data geo_df_of_def)

lemma stamp_crs_idem: "stamp_crs (stamp_crs ds) = stamp_crs ds"
  unfolding stamp_crs_def by simp

lemma fst_extract_loop:
  "fst (extract_loop e gdf names ds acc) = (if names = [] then ds else stamp_crs ds)"
proof (induction names arbitrary: ds acc)
  case Nil
  then show ?case by simp
next
  case (Cons capital rest)
  let ?msk = "gdf\<lparr> features := filter (\<lambda>row. NM_MUN row = capital) (features gdf) \<rparr>"
  obtain r where m: "mask_data e ds (MaskFrame ?msk) = (stamp_crs ds, r)"
    using fst_mask_data_frame [of e ds ?msk] by (cases "mask_data e ds (MaskFrame ?msk)") auto
  show ?case
  proof (cases r)
    case (Inl err)
    then show ?thesis using m by simp
  next
    case (Inr ds_capital)
    then show ?thesis using m Cons.IH [of "stamp_crs ds"] by (simp add: stamp_crs_idem)
  qed
qed

lemma mask_data_frame_ok:
  assumes "\<forall>gs c. \<exists>inside. geometry_mask e gs c (latitude ds) (longitude ds) = Inr inside"
  shows "\<exists>ds_capital. mask_data e ds (MaskFrame g) = (stamp_crs ds, Inr ds_capital)"
proof -
  obtain inside where
    "geometry_mask e (map geometry (features g)) (gdf_crs g) (latitude ds) (longitude ds) = Inr inside"
    using assms by blast
  then show ?thesis
    unfolding mask_data_def stamp_crs_def by (simp add: Let_def geo_df_of_def)
qed

lemma extract_loop_ok:
  assumes "\<forall>gs c. \<exists>inside. geometry_mask e gs c (latitude ds) (longitude ds) = Inr inside"
  shows "\<exists>frames. snd (extract_loop e gdf names ds acc) = Inr frames
           \<and> map fst frames = map fst acc @ names"
  using assms
proof (induction names arbitrary: ds acc)
  case Nil
  then show ?case by simp
next
  case (Cons capital rest)
  let ?msk = "gdf\<lparr> features := filter (\<lambda>row. NM_MUN row = capital) (features gdf) \<rparr>"
  obtain ds_capital where m: "mask_data e ds (MaskFrame ?msk) = (stamp_crs ds, Inr ds_capital)"
    using mask_data_frame_ok [OF Cons.prems] by blast
  have next_ok: "\<forall>gs c. \<exists>inside.
      geometry_mask e gs c (latitude (stamp_crs ds)) (longitude (stamp_crs ds)) = Inr inside"
    using Cons.prems by (simp add: stamp_crs_def)
  show ?case
    using Cons.IH [OF next_ok, of "acc @ [(capital, capital_series ds_capital)]"] m by simp
qed

lemma pd_concat_columns_names:
  "frames \<noteq> [] \<Longrightarrow>
     \<exists>df. pd_concat_columns frames = Inr df \<and> map fst (tbl_columns df) = map fst frames"
  unfolding pd_concat_columns_def by (simp add: Let_def comp_def)

text \<open>
  Claim C9. When the mask is a GeoDataFrame or a file that reads as one, and its polygons
  rasterise, masking returns a dataset with the times,
  latitudes and longitudes of the input and data of the same shape: a cell the mask keeps
  has its value, every other cell is null.
\<close>

theorem C9_mask_keeps_shape:
  assumes "geo_df_of e msk = Inr g"
    and "geometry_mask e (map geometry (features g)) (gdf_crs g) (latitude ds) (longitude ds)
             = Inr inside"
  shows "\<exists>out. snd (mask_data e ds msk) = Inr out
           \<and> times out = times ds \<and> latitude out = latitude ds \<and> longitude out = longitude ds
           \<and> length (prec out) = length (prec ds)
           \<and> (\<forall>t < length (prec ds).
                 length (prec out ! t) = length (latitude ds)
                 \<and> (\<forall>i < length (latitude ds).
                       length (prec out ! t ! i) = length (longitude ds)
                       \<and> (\<forall>j < length (longitude ds).
                             prec out ! t ! i ! j
                               = (if inside i j then prec ds ! t ! i ! j else None))))"
proof -
  let ?out = "(stamp_crs ds)\<lparr> prec := map (where_mask inside (length (latitude ds))
                                              (length (longitude ds))) (prec ds) \<rparr>"
  have run: "snd (mask_data e ds msk) = Inr ?out"
    unfolding mask_data_def stamp_crs_def using assms by (simp add: Let_def)
  have coords: "times ?out = times ds" "latitude ?out = latitude ds"
    "longitude ?out = longitude ds" "length (prec ?out) = length (prec ds)"
    by (simp_all add: stamp_crs_def)
  have cells: "length (prec ?out ! t) = length (latitude ds)
                 \<and> (\<forall>i < length (latitude ds).
                       length (prec ?out ! t ! i) = length (longitude ds)
                       \<and> (\<forall>j < length (longitude ds).
                             prec ?out ! t ! i ! j
                               = (if inside i j then prec ds ! t ! i ! j else None)))"
    if "t < length (prec ds)" for t
    using that by (simp add: where_mask_def)
  show ?thesis using run coords cells by blast
qed

theorem C9_mask_keeps_shape_witness:
  "geo_df_of (env_with boundary_demo) (MaskFrame boundary_demo) = Inr boundary_demo
   \<and> geometry_mask (env_with boundary_demo) (map geometry (features boundary_demo))
       (gdf_crs boundary_demo) (latitude daily_demo) (longitude daily_demo) = Inr (\<lambda>i j. j = 0)
   \<and> (\<exists>out. snd (mask_data (env_with boundary_demo) daily_demo (MaskFrame boundary_demo)) = Inr out
         \<and> latitude out = [0] \<and> longitude out = [0, 1]
         \<and> prec out ! 0 ! 0 ! 0 = Some 5 \<and> prec out ! 0 ! 0 ! 1 = None)"
proof -
  have h: "geometry_mask (env_with boundary_demo) (map geometry (features boundary_demo))
       (gdf_crs boundary_demo) (latitude daily_demo) (longitude daily_demo) = Inr (\<lambda>i j. j = 0)"
    by (simp add: env_with_def)
  have g: "geo_df_of (env_with boundary_demo) (MaskFrame boundary_demo) = Inr boundary_demo"
    by (simp add: geo_df_of_def)
  from C9_mask_keeps_shape [OF g h] obtain out where
    out: "snd (mask_data (env_with boundary_demo) daily_demo (MaskFrame boundary_demo)) = Inr out"
      "latitude out = latitude daily_demo" "longitude out = longitude daily_demo"
    and cells: "\<forall>t < length (prec daily_demo).
                 length (prec out ! t) = length (latitude daily_demo)
                 \<and> (\<forall>i < length (latitude daily_demo).
                       length (prec out ! t ! i) = length (longitude daily_demo)
                       \<and> (\<forall>j < length (longitude daily_demo).
                             prec out ! t ! i ! j
                               = (if j = 0 then prec daily_demo ! t ! i ! j else None)))"
    by blast
  have "prec out ! 0 ! 0 ! 0 = Some 5" "prec out ! 0 ! 0 ! 1 = None"
    using cells by (simp_all add: daily_demo_def)
  with g h out show ?thesis by (auto simp: daily_demo_def)
qed

text \<open>
  Claim C4, as amended. Masking a region (once the mask is at hand: a mask file that
  cannot be read fails before anything is written), and the extraction over all regions,
  leave the time axis, the coordinates, the values and the attributes of the daily
  dataset as they were, and write on the dataset itself: once a region has been masked,
  its spatial dimensions are set and its coordinate reference is \<open>epsg:4326\<close>, whatever
  they were before, and later regions change nothing more.
\<close>

theorem C4_dataset_after_masking:
  "fst (mask_data e ds_daily msk)
     = (case geo_df_of e msk of Inl err \<Rightarrow> ds_daily | Inr g \<Rightarrow> stamp_crs ds_daily)
   \<and> fst (extract_capitals_timeseries e ds_daily gdf_capitals)
       = (if features gdf_capitals = [] then ds_daily else stamp_crs ds_daily)
   \<and> time_dim (stamp_crs ds_daily) = time_dim ds_daily
   \<and> times (stamp_crs ds_daily) = times ds_daily
   \<and> latitude (stamp_crs ds_daily) = latitude ds_daily
   \<and> longitude (stamp_crs ds_daily) = longitude ds_daily
   \<and> prec (stamp_crs ds_daily) = prec ds_daily
   \<and> attrs (stamp_crs ds_daily) = attrs ds_daily
   \<and> spatial_dims (stamp_crs ds_daily) = Some (''longitude'', ''latitude'')
   \<and> crs (stamp_crs ds_daily) = Some ''epsg:4326''"
proof -
  have loop: "fst (extract_capitals_timeseries e ds_daily gdf_capitals)
       = (if features gdf_capitals = [] then ds_daily else stamp_crs ds_daily)"
    using fst_extract_loop [of e gdf_capitals "map NM_MUN (features gdf_capitals)" ds_daily "[]"]
    unfolding extract_capitals_timeseries_def
    by (auto split: prod.splits sum.splits)
  show ?thesis
    using loop by (simp add: fst_mask_data) (simp add: stamp_crs_def)
qed

theorem C4_dataset_after_masking_witness:
  "fst (extract_capitals_timeseries (env_with boundary_demo) daily_demo boundary_demo)
     = daily_demo\<lparr> spatial_dims := Some (''longitude'', ''latitude''), crs := Some ''epsg:4326'' \<rparr>
   \<and> prec (fst (extract_capitals_timeseries (env_with boundary_demo) daily_demo boundary_demo))
     = [[[Some 5, Some 3]]]"
proof -
  have ne: "features boundary_demo \<noteq> []" by (simp add: boundary_demo_def)
  have "fst (extract_capitals_timeseries (env_with boundary_demo) daily_demo boundary_demo)
          = stamp_crs daily_demo"
    using C4_dataset_after_masking [of "env_with boundary_demo" daily_demo _ boundary_demo]
      ne by simp
  then show ?thesis by (simp add: stamp_crs_def daily_demo_def)
qed

text \<open>
  The claim as stated fails on a daily dataset with no coordinate reference: it has one
  after the first mask.
\<close>

theorem C4_counterexample:
  "crs daily_demo = None
   \<and> crs (fst (mask_data (env_with boundary_demo) daily_demo (MaskFrame boundary_demo)))
       = Some ''epsg:4326''
   \<and> crs (fst (extract_capitals_timeseries (env_with boundary_demo) daily_demo boundary_demo))
       = Some ''epsg:4326''"
  by (simp add: fst_mask_data_frame stamp_crs_def daily_demo_def geo_df_of_def
        extract_capitals_timeseries_def boundary_demo_def mask_data_def env_with_def Let_def)

text \<open>
  Claim C3, as amended. For a region whose name in the mapping is the name of no row of
  that region in the boundary dataset, no resolved row is of that region, and the table
  has one column for each resolved row, named by it, so none for that region: no column
  bears the mapped name when no other region maps to it. When some region is resolved
  and the polygons rasterise on the grid, the table is returned and no error is raised.
\<close>

theorem C3_columns_are_resolved_rows:
  assumes read: "read_file e shapefile_path = Inr gdf"
    and entry: "capitals_dict uf = Some name"
    and only: "\<forall>uf'. capitals_dict uf' = Some name \<longrightarrow> uf' = uf"
    and absent: "list_all (\<lambda>row. \<not> (SIGLA_UF row = uf \<and> NM_MUN row = name)) (features gdf)"
    and some: "list_ex (is_capital capitals_dict) (features gdf)"
    and clip: "\<forall>gs c. \<exists>inside.
                 geometry_mask e gs c (latitude ds_daily) (longitude ds_daily) = Inr inside"
  shows "\<exists>df_br. capitals_table e shapefile_path capitals_dict ds_daily = Inr df_br
           \<and> map fst (tbl_columns df_br)
               = map NM_MUN (filter (is_capital capitals_dict) (features gdf))
           \<and> list_all (\<lambda>row. SIGLA_UF row \<noteq> uf)
               (filter (is_capital capitals_dict) (features gdf))
           \<and> name \<notin> set (map fst (tbl_columns df_br))"
proof -
  let ?rows = "filter (is_capital capitals_dict) (features gdf)"
  let ?caps = "gdf\<lparr> features := ?rows \<rparr>"
  have resolve: "extract_capitals_from_shapefile e shapefile_path capitals_dict = Inr ?caps"
    unfolding extract_capitals_from_shapefile_def using read by simp
  obtain frames where frames:
      "snd (extract_loop e ?caps (map NM_MUN ?rows) ds_daily []) = Inr frames"
      "map fst frames = map NM_MUN ?rows"
    using extract_loop_ok [OF clip, of ?caps "map NM_MUN ?rows" "[]"] by auto
  have ne: "frames \<noteq> []"
  proof
    assume "frames = []"
    then have "?rows = []" using frames(2) by simp
    then show False using some by (auto simp: list_ex_iff filter_empty_conv)
  qed
  obtain df where df: "pd_concat_columns frames = Inr df"
      "map fst (tbl_columns df) = map fst frames"
    using pd_concat_columns_names [OF ne] by blast
  have run: "capitals_table e shapefile_path capitals_dict ds_daily = Inr df"
    unfolding capitals_table_def extract_capitals_timeseries_def
    using resolve frames(1) df(1)
    by (cases "extract_loop e ?caps (map NM_MUN ?rows) ds_daily []") simp
  have other: "SIGLA_UF row \<noteq> uf \<and> NM_MUN row \<noteq> name" if "row \<in> set ?rows" for row
  proof -
    from that have cap: "capitals_dict (SIGLA_UF row) = Some (NM_MUN row)"
      and mem: "row \<in> set (features gdf)"
      by (auto simp: is_capital_def split: option.splits)
    from mem absent have no: "\<not> (SIGLA_UF row = uf \<and> NM_MUN row = name)"
      by (simp add: list_all_iff)
    show ?thesis
    proof (intro conjI notI)
      assume "SIGLA_UF row = uf"
      with cap entry no show False by simp
    next
      assume "NM_MUN row = name"
      with cap only no show False by auto
    qed
  qed
  have codes: "list_all (\<lambda>row. SIGLA_UF row \<noteq> uf) ?rows"
    using other by (simp add: list_all_iff)
  have cols: "map fst (tbl_columns df) = map NM_MUN ?rows"
    using df(2) frames(2) by simp
  have names: "name \<notin> set (map fst (tbl_columns df))"
    unfolding cols using other by auto
  show ?thesis using run cols codes names by blast
qed

theorem C3_columns_are_resolved_rows_witness:
  "read_file (env_with boundary_demo) ''BR.shp'' = Inr boundary_demo
   \<and> mapping_demo ''RJ'' = Some ''Rio de Janeiro''
   \<and> list_all (\<lambda>row. \<not> (SIGLA_UF row = ''RJ'' \<and> NM_MUN row = ''Rio de Janeiro''))
        (features boundary_demo)
   \<and> list_ex (is_capital mapping_demo) (features boundary_demo)
   \<and> (\<exists>df_br. capitals_table (env_with boundary_demo) ''BR.shp'' mapping_demo daily_demo = Inr df_br
         \<and> map fst (tbl_columns df_br) = [''Sao Paulo'']
         \<and> ''Rio de Janeiro'' \<notin> set (map fst (tbl_columns df_br)))"
proof -
  have read: "read_file (env_with boundary_demo) ''BR.shp'' = Inr boundary_demo"
    by (simp add: env_with_def)
  have entry: "mapping_demo ''RJ'' = Some ''Rio de Janeiro''" by (simp add: mapping_demo_def)
  have only: "\<forall>uf'. mapping_demo uf' = Some ''Rio de Janeiro'' \<longrightarrow> uf' = ''RJ''"
    by (simp add: mapping_demo_def)
  have absent: "list_all (\<lambda>row. \<not> (SIGLA_UF row = ''RJ'' \<and> NM_MUN row = ''Rio de Janeiro''))
        (features boundary_demo)"
    by (simp add: boundary_demo_def)
  have some: "list_ex (is_capital mapping_demo) (features boundary_demo)"
    by (simp add: boundary_demo_def is_capital_def mapping_demo_def)
  have clip: "\<forall>gs c. \<exists>inside. geometry_mask (env_with boundary_demo) gs c
                 (latitude daily_demo) (longitude daily_demo) = Inr inside"
    by (simp add: env_with_def)
  have rows: "map NM_MUN (filter (is_capital mapping_demo) (features boundary_demo)) = [''Sao Paulo'']"
    by (simp add: boundary_demo_def is_capital_def mapping_demo_def)
  from C3_columns_are_resolved_rows [OF read entry only absent some clip]
  obtain df_br where
    "capitals_table (env_with boundary_demo) ''BR.shp'' mapping_demo daily_demo = Inr df_br"
    "map fst (tbl_columns df_br)
       = map NM_MUN (filter (is_capital mapping_demo) (features boundary_demo))"
    "''Rio de Janeiro'' \<notin> set (map fst (tbl_columns df_br))"
    by blast
  with read entry absent some rows show ?thesis by auto
qed

text \<open>
  The claim as stated fails where RJ maps to a name the dataset does not have: the table
  has the one column of the other region.
\<close>

theorem C3_counterexample:
  "capitals_table (env_with boundary_demo) ''BR.shp'' mapping_demo daily_demo
     = Inr \<lparr> tbl_index = [Timestamp 2025 1 2 12], tbl_columns = [(''Sao Paulo'', [Some 5])] \<rparr>
   \<and> mapping_demo ''RJ'' = Some ''Rio de Janeiro''
   \<and> map SIGLA_UF (features boundary_demo) = [''SP'', ''SP'', ''RJ'']
   \<and> map NM_MUN (features boundary_demo) = [''Sao Paulo'', ''Campinas'', ''Rio'']"
  by code_simp

section \<open>Claims about the Orchestrator\<close>

lemma last_differ: "last a \<noteq> last b \<Longrightarrow> a \<noteq> b"
  by auto

lemma paths_differ:
  "hour_file dt \<noteq> parquet_path"
  "parquet_path \<noteq> hour_file dt"
  "indexpath e filename \<noteq> parquet_path"
  "parquet_path \<noteq> indexpath e filename"
  "indexpath e filename \<noteq> hour_file dt"
  "hour_file dt \<noteq> indexpath e filename"
  by (rule last_differ, simp add: hour_file_def parquet_path_def indexpath_def)+

lemma download_file_name:
  "os_path_join ''./merge_data'' (''MERGE_CPTEC_'' @ strftime_YmdH dt @ ''.grib2'') = hour_file dt"
  by (simp add: os_path_join_def hour_file_def)

lemma download_result:
  "download_merge_cptec e dt ''./merge_data'' w =
     (case requests_get e (merge_url dt) of
        Inl err \<Rightarrow> (w\<lparr> dirs := insert ''./merge_data'' (dirs w) \<rparr>, Inl err)
      | Inr (status_code, content) \<Rightarrow>
          if status_code = 200
          then (w\<lparr> dirs := insert ''./merge_data'' (dirs w),
                    files := (files w)(hour_file dt \<mapsto> Bytes content) \<rparr>, Inr (hour_file dt))
          else (w\<lparr> dirs := insert ''./merge_data'' (dirs w) \<rparr>, Inr (hour_file dt)))"
  unfolding download_merge_cptec_def download_file_name
  by (simp add: Let_def split: sum.splits prod.splits)

lemma download_frame:
  "calls (fst (download_merge_cptec e dt ''./merge_data'' w)) = calls w
   \<and> mongo (fst (download_merge_cptec e dt ''./merge_data'' w)) = mongo w
   \<and> dirs (fst (download_merge_cptec e dt ''./merge_data'' w)) = insert ''./merge_data'' (dirs w)
   \<and> files (fst (download_merge_cptec e dt ''./merge_data'' w)) parquet_path
       = files w parquet_path"
  unfolding download_result
  by (simp add: paths_differ split: sum.splits prod.splits)

lemma write_index_frame:
  "calls (write_index e w filename c) = calls w"
  "mongo (write_index e w filename c) = mongo w"
  "dirs (write_index e w filename c) = dirs w"
  "files (write_index e w filename c) parquet_path = files w parquet_path"
  "files (write_index e w filename c) (hour_file h) = files w (hour_file h)"
  unfolding write_index_def
  by (simp_all add: paths_differ split: option.splits)

lemma open_dataset_frame:
  "calls (fst (open_dataset e w filename)) = calls w"
  "mongo (fst (open_dataset e w filename)) = mongo w"
  "dirs (fst (open_dataset e w filename)) = dirs w"
  "files (fst (open_dataset e w filename)) parquet_path = files w parquet_path"
  "files (fst (open_dataset e w filename)) (hour_file h) = files w (hour_file h)"
  unfolding open_dataset_def
  by (simp_all add: write_index_frame split: option.splits)

lemma process_hour_pair:
  "process_hour e dt (w, datasets)
     = (case download_merge_cptec e dt ''./merge_data'' (w\<lparr> calls := calls w @ [CallDownload dt] \<rparr>) of
          (w1, Inl err) \<Rightarrow> (w1, datasets)
        | (w1, Inr returned) \<Rightarrow>
            (case open_dataset e w1 (hour_file dt) of
               (w2, Inl err) \<Rightarrow> (w2, datasets)
             | (w2, Inr opened) \<Rightarrow>
                 (case select_prec opened of
                    Inl err \<Rightarrow> (w2, datasets)
                  | Inr ds \<Rightarrow> (w2, datasets @ [expand_dims (fix_coordinates ds)]))))"
  unfolding process_hour_def by (simp add: Let_def)

lemma fst_process_hour:
  "fst (process_hour e dt (w, datasets))
     = (case download_merge_cptec e dt ''./merge_data'' (w\<lparr> calls := calls w @ [CallDownload dt] \<rparr>) of
          (w1, Inl err) \<Rightarrow> w1
        | (w1, Inr returned) \<Rightarrow> fst (open_dataset e w1 (hour_file dt)))"
  unfolding process_hour_pair
  by (simp split: sum.splits prod.splits)

lemma process_hour_frame:
  "calls (fst (process_hour e dt st)) = calls (fst st) @ [CallDownload dt]
   \<and> mongo (fst (process_hour e dt st)) = mongo (fst st)
   \<and> dirs (fst (process_hour e dt st)) = insert ''./merge_data'' (dirs (fst st))
   \<and> files (fst (process_hour e dt st)) parquet_path = files (fst st) parquet_path"
proof (cases st)
  case (Pair w datasets)
  let ?w0 = "w\<lparr> calls := calls w @ [CallDownload dt] \<rparr>"
  obtain w1 r where d: "download_merge_cptec e dt ''./merge_data'' ?w0 = (w1, r)"
    by fastforce
  have w1: "calls w1 = calls w @ [CallDownload dt]" "mongo w1 = mongo w"
      "dirs w1 = insert ''./merge_data'' (dirs w)"
      "files w1 parquet_path = files w parquet_path"
    using download_frame [of e dt ?w0] unfolding d by simp_all
  show ?thesis
    unfolding Pair fst_process_hour d
    by (cases r) (simp_all add: w1 open_dataset_frame)
qed

lemma hour_loop_frame:
  "calls (fst (hour_loop e dt endt st)) = calls (fst st) @ map CallDownload [dt..endt]
   \<and> mongo (fst (hour_loop e dt endt st)) = mongo (fst st)
   \<and> dirs (fst (hour_loop e dt endt st)) \<subseteq> insert ''./merge_data'' (dirs (fst st))
   \<and> files (fst (hour_loop e dt endt st)) parquet_path = files (fst st) parquet_path"
proof (induction e dt endt st rule: hour_loop.induct)
  case (1 e dt endt st)
  show ?case
  proof (cases "dt \<le> endt")
    case True
    have unfold: "hour_loop e dt endt st = hour_loop e (dt + 1) endt (process_hour e dt st)"
      using True by (subst hour_loop.simps) simp
    show ?thesis
      unfolding unfold using "1.IH" [OF True] process_hour_frame [of e dt st] True
      by (auto simp: upto_rec1 [of dt endt])
  next
    case False
    then have "hour_loop e dt endt st = st" by (subst hour_loop.simps) simp
    with False show ?thesis by auto
  qed
qed

lemma run_hours_frame:
  assumes "run_hours e start endt w = (w', datasets')"
  shows "calls w' = calls w @ map CallDownload [start..endt] \<and> mongo w' = mongo w
         \<and> dirs w' \<subseteq> insert ''./merge_data'' (dirs w)
         \<and> files w' parquet_path = files w parquet_path"
proof (cases "start > endt")
  case True
  then show ?thesis using assms unfolding run_hours_def by auto
next
  case False
  then show ?thesis using assms hour_loop_frame [of e start endt "(w, [])"]
    unfolding run_hours_def by simp
qed

subsection \<open>Hours that fail\<close>

lemma process_hour_after_download:
  assumes d: "download_merge_cptec e dt ''./merge_data'' (wc\<lparr> calls := calls wc @ [CallDownload dt] \<rparr>)
                = (w1, r)"
    and no: "(\<exists>err. r = Inl err) \<or> files w1 (hour_file dt) = None
               \<or> (\<exists>c. files w1 (hour_file dt) = Some c \<and> \<not> yields_grid e c)"
  shows "snd (process_hour e dt (wc, datasets)) = datasets"
    and "files (fst (process_hour e dt (wc, datasets))) (hour_file h) = files w1 (hour_file h)"
proof -
  show "files (fst (process_hour e dt (wc, datasets))) (hour_file h) = files w1 (hour_file h)"
    unfolding fst_process_hour d by (cases r) (simp_all add: open_dataset_frame)
  show "snd (process_hour e dt (wc, datasets)) = datasets"
  proof (cases r)
    case (Inl err)
    then show ?thesis unfolding process_hour_pair d by simp
  next
    case (Inr returned)
    show ?thesis
    proof (cases "files w1 (hour_file dt)")
      case None
      then show ?thesis unfolding process_hour_pair d Inr by (simp add: open_dataset_def)
    next
      case (Some c)
      with no Inr have barren: "\<not> yields_grid e c" by simp
      show ?thesis
      proof (cases c)
        case (Parquet t)
        show ?thesis
          unfolding process_hour_pair d Inr by (simp add: open_dataset_def Some Parquet)
      next
        case (Bytes b)
        show ?thesis
        proof (cases "open_grib e b")
          case Inl
          then show ?thesis
            unfolding process_hour_pair d Inr by (simp add: open_dataset_def Some Bytes)
        next
          case (Inr opened)
          with barren Bytes obtain err where "select_prec opened = Inl err"
            unfolding yields_grid_def by (cases "select_prec opened") simp_all
          then show ?thesis
            unfolding process_hour_pair d \<open>r = Inr returned\<close>
            by (simp add: open_dataset_def Some Bytes Inr)
        qed
      qed
    qed
  qed
qed

lemma process_hour_fails:
  assumes fails: "hour_fails e w dt"
    and inv: "\<forall>h. files wc (hour_file h) = files w (hour_file h)
                \<or> (\<exists>c. files wc (hour_file h) = Some c \<and> \<not> yields_grid e c)"
  shows "snd (process_hour e dt (wc, datasets)) = datasets
       \<and> (\<forall>h. files (fst (process_hour e dt (wc, datasets))) (hour_file h) = files w (hour_file h)
                \<or> (\<exists>c. files (fst (process_hour e dt (wc, datasets))) (hour_file h) = Some c
                        \<and> \<not> yields_grid e c))"
proof -
  let ?w0 = "wc\<lparr> calls := calls wc @ [CallDownload dt] \<rparr>"
  obtain w1 r where d: "download_merge_cptec e dt ''./merge_data'' ?w0 = (w1, r)"
    by fastforce
  have "((\<exists>err. r = Inl err) \<or> files w1 (hour_file dt) = None
            \<or> (\<exists>c. files w1 (hour_file dt) = Some c \<and> \<not> yields_grid e c))
        \<and> (\<forall>h. files w1 (hour_file h) = files w (hour_file h)
                \<or> (\<exists>c. files w1 (hour_file h) = Some c \<and> \<not> yields_grid e c))"
  proof (cases "requests_get e (merge_url dt)")
    case (Inl err)
    then have "w1 = ?w0\<lparr> dirs := insert ''./merge_data'' (dirs ?w0) \<rparr>" "r = Inl err"
      using d unfolding download_result by simp_all
    then show ?thesis using inv by simp
  next
    case (Inr answer)
    obtain status_code content where answer: "answer = (status_code, content)"
      by (cases answer)
    show ?thesis
    proof (cases "status_code = 200")
      case True
      then have w1: "files w1 = (files wc)(hour_file dt \<mapsto> Bytes content)"
        using d unfolding download_result Inr answer by auto
      have barren: "\<not> yields_grid e (Bytes content)"
        using fails True unfolding hour_fails_def Inr answer by simp
      show ?thesis unfolding w1 using barren inv by simp
    next
      case False
      then have w1: "files w1 = files wc"
        using d unfolding download_result Inr answer by auto
      have "files w (hour_file dt) = None
              \<or> (\<exists>c. files w (hour_file dt) = Some c \<and> \<not> yields_grid e c)"
        using fails False unfolding hour_fails_def Inr answer
        by (simp split: option.splits)
      then have "files wc (hour_file dt) = None
              \<or> (\<exists>c. files wc (hour_file dt) = Some c \<and> \<not> yields_grid e c)"
        using inv by metis
      then show ?thesis unfolding w1 using inv by simp
    qed
  qed
  then show ?thesis
    using process_hour_after_download [OF d, of datasets] by simp
qed

lemma hour_loop_fails:
  assumes "\<forall>h. dt \<le> h \<and> h \<le> endt \<longrightarrow> hour_fails e w h"
    and "\<forall>h. files (fst st) (hour_file h) = files w (hour_file h)
                \<or> (\<exists>c. files (fst st) (hour_file h) = Some c \<and> \<not> yields_grid e c)"
  shows "snd (hour_loop e dt endt st) = snd st"
  using assms
proof (induction e dt endt st rule: hour_loop.induct)
  case (1 e dt endt st)
  show ?case
  proof (cases "dt \<le> endt")
    case True
    have unfold: "hour_loop e dt endt st = hour_loop e (dt + 1) endt (process_hour e dt st)"
      using True by (subst hour_loop.simps) simp
    obtain wc datasets where st: "st = (wc, datasets)" by (cases st)
    have now: "hour_fails e w dt" using "1.prems"(1) True by simp
    have step: "snd (process_hour e dt st) = snd st
       \<and> (\<forall>h. files (fst (process_hour e dt st)) (hour_file h) = files w (hour_file h)
                \<or> (\<exists>c. files (fst (process_hour e dt st)) (hour_file h) = Some c
                        \<and> \<not> yields_grid e c))"
      using process_hour_fails [OF now, of wc datasets] "1.prems"(2) unfolding st by simp
    have later: "\<forall>h. dt + 1 \<le> h \<and> h \<le> endt \<longrightarrow> hour_fails e w h"
      using "1.prems"(1) by simp
    have "snd (hour_loop e (dt + 1) endt (process_hour e dt st)) = snd (process_hour e dt st)"
      using "1.IH" [OF True later] step by blast
    then show ?thesis unfolding unfold using step by simp
  next
    case False
    then have stop: "hour_loop e dt endt st = st" by (subst hour_loop.simps) simp
    show ?thesis unfolding stop ..
  qed
qed

lemma run_hours_fails:
  assumes "\<forall>dt. start \<le> dt \<and> dt \<le> endt \<longrightarrow> hour_fails e w dt"
  shows "snd (run_hours e start endt w) = []"
  unfolding run_hours_def using hour_loop_fails [of start endt e w "(w, [])"] assms by simp

lemma process_hour_stale:
  assumes "requests_get e (merge_url dt) = Inr (status_code, content)"
    and "status_code \<noteq> 200"
    and "files w (hour_file dt) = Some (Bytes stale)"
    and "open_grib e stale = Inr opened" and "select_prec opened = Inr ds"
  shows "process_hour e dt (w, datasets)
           = (write_index e (w\<lparr> calls := calls w @ [CallDownload dt],
                                 dirs := insert ''./merge_data'' (dirs w) \<rparr>)
                (hour_file dt) (Bytes stale),
              datasets @ [expand_dims (fix_coordinates ds)])"
  unfolding process_hour_pair download_result using assms
  by (simp add: open_dataset_def)

text \<open>
  Claim C1, as amended. An hour fails when its request raises, when it is answered with
  status 200 and a body that yields no grid, or when it is answered with another status
  and the disk of the start of the run has no file at the path of the hour that yields a
  grid. When every hour of the range fails, the loop leaves no grid; the run then stops
  at line 121, where naming the unbound \<open>ds_all\<close> raises NameError before the aggregator
  is entered: the only calls of the run are the downloads of the hours, no directory but
  that of the downloads is made, and the output file and the collection are as they were
  before the run.
\<close>

theorem C1_no_grid_no_output:
  assumes "\<forall>dt. start \<le> dt \<and> dt \<le> endt \<longrightarrow> hour_fails e w dt"
  shows "snd (run_hours e start endt w) = []
       \<and> main e start endt w = (fst (run_hours e start endt w), Inl (NameError ''ds_all''))
       \<and> calls (fst (main e start endt w)) = calls w @ map CallDownload [start..endt]
       \<and> CallAggregate \<notin> set (map CallDownload [start..endt])
       \<and> CallToParquet \<notin> set (map CallDownload [start..endt])
       \<and> CallSaveMongo \<notin> set (map CallDownload [start..endt])
       \<and> dirs (fst (main e start endt w)) \<subseteq> insert ''./merge_data'' (dirs w)
       \<and> files (fst (main e start endt w)) parquet_path = files w parquet_path
       \<and> mongo (fst (main e start endt w)) = mongo w"
proof -
  have none: "snd (run_hours e start endt w) = []"
    using assms by (rule run_hours_fails)
  then obtain w1 where run: "run_hours e start endt w = (w1, [])"
    by (cases "run_hours e start endt w") simp
  have m: "main e start endt w = (w1, Inl (NameError ''ds_all''))"
    unfolding main_def using run by simp
  show ?thesis
    using none m run run_hours_frame [OF run] by auto
qed

theorem C1_no_grid_no_output_witness:
  "hour_fails (env_with boundary_demo) world_stale (datetime 2025 1 2 23)
   \<and> requests_get (env_with boundary_demo) (merge_url (datetime 2025 1 2 23)) = Inr (404, [])
   \<and> files world_stale (hour_file (datetime 2025 1 2 23)) = Some (Bytes ''old'')
   \<and> snd (run_hours (env_with boundary_demo) (datetime 2025 1 2 23) (datetime 2025 1 3 1) world_stale) = []
   \<and> snd (main (env_with boundary_demo) (datetime 2025 1 2 23) (datetime 2025 1 3 1) world_stale)
       = Inl (NameError ''ds_all'')
   \<and> calls (fst (main (env_with boundary_demo) (datetime 2025 1 2 23) (datetime 2025 1 3 1) world_stale))
       = [CallDownload (datetime 2025 1 2 23), CallDownload (datetime 2025 1 3 0),
          CallDownload (datetime 2025 1 3 1)]
   \<and> files (fst (main (env_with boundary_demo) (datetime 2025 1 2 23) (datetime 2025 1 3 1) world_stale))
        parquet_path = None
   \<and> mongo (fst (main (env_with boundary_demo) (datetime 2025 1 2 23) (datetime 2025 1 3 1) world_stale))
       = []"
proof -
  let ?e = "env_with boundary_demo"
  let ?a = "datetime 2025 1 2 23" and ?b = "datetime 2025 1 3 1"
  have all: "\<forall>dt. ?a \<le> dt \<and> dt \<le> ?b \<longrightarrow> hour_fails ?e world_stale dt"
    by (simp add: hour_fails_def yields_grid_def env_with_def
          split: option.splits file_content.splits)
  have one: "hour_fails ?e world_stale ?a"
    by (simp add: hour_fails_def yields_grid_def env_with_def
          split: option.splits file_content.splits)
  have req: "requests_get ?e (merge_url ?a) = Inr (404, [])"
    by (simp add: env_with_def)
  have name: "strftime_YmdH ?a = ''2025010223''" by code_simp
  have old: "files world_stale (hour_file ?a) = Some (Bytes ''old'')"
    by (simp add: hour_file_def name world_stale_def world0_def)
  have hours: "map CallDownload [?a..?b]
                 = [CallDownload ?a, CallDownload (datetime 2025 1 3 0), CallDownload ?b]"
    by code_simp
  have w0: "calls world_stale = []" "files world_stale parquet_path = None"
      "mongo world_stale = []"
    by (simp_all add: world_stale_def world0_def parquet_path_def)
  note inst = C1_no_grid_no_output [OF all]
  have h: "snd (run_hours ?e ?a ?b world_stale) = []"
    using inst by blast
  have m: "snd (main ?e ?a ?b world_stale) = Inl (NameError ''ds_all'')"
    using inst [THEN conjunct2, THEN conjunct1] by simp
  have c: "calls (fst (main ?e ?a ?b world_stale)) = calls world_stale @ map CallDownload [?a..?b]"
    using inst by blast
  have f: "files (fst (main ?e ?a ?b world_stale)) parquet_path = files world_stale parquet_path"
    using inst by blast
  have g: "mongo (fst (main ?e ?a ?b world_stale)) = mongo world_stale"
    using inst by blast
  have c': "calls (fst (main ?e ?a ?b world_stale))
              = [CallDownload ?a, CallDownload (datetime 2025 1 3 0), CallDownload ?b]"
    unfolding c hours w0 by simp
  have f': "files (fst (main ?e ?a ?b world_stale)) parquet_path = None"
    unfolding f w0 ..
  have g': "mongo (fst (main ?e ?a ?b world_stale)) = []"
    unfolding g w0 ..
  from one req old h m c' f' g' show ?thesis by blast
qed

text \<open>
  The claim as stated fails on a run of one hour whose request is answered with status
  404 while a file of an earlier run that decodes is at the path of the hour: the fetch
  of every hour fails, yet the hour adds the grid of the old file, the aggregator is
  called, the table is written to the output file and its rows are stored.
\<close>

theorem C1_counterexample:
  "requests_get env_rerun (merge_url (datetime 2025 1 2 23)) = Inr (404, [])
   \<and> files world_stale (hour_file (datetime 2025 1 2 23)) = Some (Bytes ''old'')
   \<and> files world_stale parquet_path = None
   \<and> snd (main env_rerun (datetime 2025 1 2 23) (datetime 2025 1 2 23) world_stale) = Inr ()
   \<and> calls (fst (main env_rerun (datetime 2025 1 2 23) (datetime 2025 1 2 23) world_stale))
       = [CallDownload (datetime 2025 1 2 23), CallAggregate, CallToParquet, CallSaveMongo]
   \<and> files (fst (main env_rerun (datetime 2025 1 2 23) (datetime 2025 1 2 23) world_stale))
        parquet_path
       = Some (Parquet \<lparr> tbl_index = [Timestamp 2024 12 31 12],
                         tbl_columns = [(''Rio Branco'', [Some 2])] \<rparr>)
   \<and> mongo (fst (main env_rerun (datetime 2025 1 2 23) (datetime 2025 1 2 23) world_stale))
       = [(Timestamp 2024 12 31 12, [(''Rio Branco'', Some 2)])]"
proof -
  let ?dt = "datetime 2025 1 2 23"
  let ?h = "\<lparr> h_latitude = [0], h_longitude = [0, 270], h_valid_time = Timestamp 2024 12 31 23,
              h_prec = [[Some 1, Some 2]] \<rparr>"
  let ?ds = "\<lparr> time_dim = ''valid_time'', times = [Timestamp 2024 12 31 23], latitude = [0],
               longitude = [- 90, 0], prec = [[[Some 2, Some 1]]], attrs = [],
               spatial_dims = None, crs = None \<rparr>"
  let ?daily = "\<lparr> time_dim = ''ref_time'', times = [Timestamp 2024 12 31 12], latitude = [0],
               longitude = [- 90, 0], prec = [[[Some 2, Some 1]]], attrs = [aggregation_period],
               spatial_dims = None, crs = None \<rparr>"
  let ?df = "\<lparr> tbl_index = [Timestamp 2024 12 31 12], tbl_columns = [(''Rio Branco'', [Some 2])] \<rparr>"
  let ?w1 = "write_index env_rerun
               (world_stale\<lparr> calls := calls world_stale @ [CallDownload ?dt],
                              dirs := insert ''./merge_data'' (dirs world_stale) \<rparr>)
               (hour_file ?dt) (Bytes ''old'')"
  have name: "strftime_YmdH ?dt = ''2025010223''" by code_simp
  have req: "requests_get env_rerun (merge_url ?dt) = Inr (404, [])"
    by (simp add: env_rerun_def env_with_def)
  have old: "files world_stale (hour_file ?dt) = Some (Bytes ''old'')"
    by (simp add: hour_file_def name world_stale_def world0_def)
  have before: "files world_stale parquet_path = None"
    by (simp add: world_stale_def world0_def parquet_path_def)
  have dec: "open_grib env_rerun ''old'' = Inr raw_demo"
    by (simp add: env_rerun_def)
  have sel: "select_prec raw_demo = Inr ?h"
    by (simp add: select_prec_def raw_demo_def)
  have fixed: "expand_dims (fix_coordinates ?h) = ?ds"
    by (simp add: expand_dims_def fix_coordinates_def sortby_latitude_def sortby_longitude_def
          argsort_def isel_def remap_longitude_def py_mod_def fmod_def Let_def)
  have hour: "process_hour env_rerun ?dt (world_stale, []) = (?w1, [?ds])"
    using process_hour_stale [OF req _ old dec sel, of "[]"] fixed by simp
  have run: "run_hours env_rerun ?dt ?dt world_stale = (?w1, [?ds])"
    unfolding run_hours_def
    by (simp add: hour_loop.simps [of env_rerun ?dt ?dt] hour_loop.simps [of env_rerun "?dt + 1" ?dt]
          hour)
  have cat: "xr_concat env_rerun [?ds] = Inr ?ds"
    by (simp add: env_rerun_def)
  have daily: "diary_prec_12z ?ds = Inr ?daily" by code_simp
  have tab: "capitals_table env_rerun path_gdf uf_br ?daily = Inr ?df" by code_simp
  have w1: "calls ?w1 = [CallDownload ?dt]" "mongo ?w1 = []"
    by (simp_all add: write_index_frame world_stale_def world0_def)
  have recs: "to_records ?df = [(Timestamp 2024 12 31 12, [(''Rio Branco'', Some 2)])]"
    by (simp add: to_records_def)
  have up: "mongo_up env_rerun" by (simp add: env_rerun_def env_with_def)
  have out: "os_path_join ''./output'' ''capitals_br_daily_prec.parquet'' = parquet_path"
    by (simp add: os_path_join_def parquet_path_def)
  have m: "main env_rerun ?dt ?dt world_stale
             = (?w1\<lparr> dirs := insert ''./output'' (dirs ?w1),
                      files := (files ?w1)(parquet_path \<mapsto> Parquet ?df),
                      calls := [CallDownload ?dt, CallAggregate, CallToParquet, CallSaveMongo],
                      mongo := [(Timestamp 2024 12 31 12, [(''Rio Branco'', Some 2)])] \<rparr>,
                Inr ())"
    unfolding main_def run
    by (simp add: cat daily tab out save_parquet_to_mongodb_def recs up w1 Let_def
          del: One_nat_def)
  show ?thesis
    unfolding m using req old before by simp
qed

text \<open>
  Claim C10. When the request is answered with a status other than 200, the download
  raises nothing, returns the name of the file and leaves every file as it was; if a
  file of that name is on disk and decodes, the hour appends its grid instead of being
  skipped, and the only file the hour may add is the index of the old file.
\<close>

theorem C10_stale_file_is_processed:
  assumes "requests_get e (merge_url dt) = Inr (status_code, content)"
    and "status_code \<noteq> 200"
  shows "download_merge_cptec e dt output_dir w
           = (w\<lparr> dirs := insert output_dir (dirs w) \<rparr>,
              Inr (os_path_join output_dir (''MERGE_CPTEC_'' @ strftime_YmdH dt @ ''.grib2'')))
       \<and> files (fst (download_merge_cptec e dt output_dir w)) = files w
       \<and> (files w (''./merge_data/MERGE_CPTEC_'' @ strftime_YmdH dt @ ''.grib2'') = Some (Bytes stale)
            \<longrightarrow> open_grib e stale = Inr opened
            \<longrightarrow> select_prec opened = Inr ds
            \<longrightarrow> process_hour e dt (w, datasets)
                  = (write_index e
                       (w\<lparr> calls := calls w @ [CallDownload dt],
                            dirs := insert ''./merge_data'' (dirs w) \<rparr>)
                       (''./merge_data/MERGE_CPTEC_'' @ strftime_YmdH dt @ ''.grib2'') (Bytes stale),
                     datasets @ [expand_dims (fix_coordinates ds)]))"
proof -
  have d: "download_merge_cptec e dt output_dir w
           = (w\<lparr> dirs := insert output_dir (dirs w) \<rparr>,
              Inr (os_path_join output_dir (''MERGE_CPTEC_'' @ strftime_YmdH dt @ ''.grib2'')))"
    for output_dir w
    unfolding download_merge_cptec_def using assms by (simp add: Let_def)
  have p: "process_hour e dt (w, datasets)
                  = (write_index e
                       (w\<lparr> calls := calls w @ [CallDownload dt],
                            dirs := insert ''./merge_data'' (dirs w) \<rparr>)
                       (''./merge_data/MERGE_CPTEC_'' @ strftime_YmdH dt @ ''.grib2'') (Bytes stale),
                     datasets @ [expand_dims (fix_coordinates ds)])"
    if "files w (''./merge_data/MERGE_CPTEC_'' @ strftime_YmdH dt @ ''.grib2'') = Some (Bytes stale)"
      and "open_grib e stale = Inr opened" and "select_prec opened = Inr ds"
    unfolding process_hour_pair d hour_file_def using that by (simp add: open_dataset_def)
  show ?thesis using d p by simp
qed

theorem C10_stale_file_is_processed_witness:
  "requests_get env_stale (merge_url (datetime 2025 1 2 23)) = Inr (404, [])
   \<and> (404 :: nat) \<noteq> 200
   \<and> files world_stale (''./merge_data/MERGE_CPTEC_'' @ strftime_YmdH (datetime 2025 1 2 23) @ ''.grib2'')
       = Some (Bytes ''old'')
   \<and> open_grib env_stale ''old'' = Inr raw_demo
   \<and> snd (download_merge_cptec env_stale (datetime 2025 1 2 23) ''./merge_data'' world_stale)
       = Inr ''./merge_data/MERGE_CPTEC_2025010223.grib2''
   \<and> snd (process_hour env_stale (datetime 2025 1 2 23) (world_stale, []))
       = [\<lparr> time_dim = ''valid_time'', times = [Timestamp 2024 12 31 23], latitude = [0],
            longitude = [- 90, 0], prec = [[[Some 2, Some 1]]], attrs = [],
            spatial_dims = None, crs = None \<rparr>]"
proof -
  let ?dt = "datetime 2025 1 2 23"
  let ?ds = "\<lparr> h_latitude = [0], h_longitude = [0, 270], h_valid_time = Timestamp 2024 12 31 23,
               h_prec = [[Some 1, Some 2]] \<rparr>"
  have name: "strftime_YmdH ?dt = ''2025010223''" by code_simp
  have h1: "requests_get env_stale (merge_url ?dt) = Inr (404, [])"
    by (simp add: env_stale_def env_with_def)
  have h2: "(404 :: nat) \<noteq> 200" by simp
  have h3: "files world_stale (''./merge_data/MERGE_CPTEC_'' @ strftime_YmdH ?dt @ ''.grib2'')
              = Some (Bytes ''old'')"
    by (simp add: name world_stale_def world0_def)
  have h4: "open_grib env_stale ''old'' = Inr raw_demo"
    by (simp add: env_stale_def)
  have h5: "select_prec raw_demo = Inr ?ds"
    by (simp add: select_prec_def raw_demo_def)
  have fixed: "expand_dims (fix_coordinates ?ds)
      = \<lparr> time_dim = ''valid_time'', times = [Timestamp 2024 12 31 23], latitude = [0],
            longitude = [- 90, 0], prec = [[[Some 2, Some 1]]], attrs = [],
            spatial_dims = None, crs = None \<rparr>"
    by (simp add: expand_dims_def fix_coordinates_def sortby_latitude_def sortby_longitude_def
          argsort_def isel_def remap_longitude_def py_mod_def fmod_def Let_def)
  note inst = C10_stale_file_is_processed [OF h1 h2, of "''./merge_data''" world_stale
      "''old''" raw_demo ?ds "[]"]
  have dl: "snd (download_merge_cptec env_stale ?dt ''./merge_data'' world_stale)
       = Inr ''./merge_data/MERGE_CPTEC_2025010223.grib2''"
    using inst by (simp add: name os_path_join_def)
  have ph: "snd (process_hour env_stale ?dt (world_stale, [])) = [expand_dims (fix_coordinates ?ds)]"
    using inst h3 h4 h5 by simp
  show ?thesis
    using h1 h3 h4 dl ph fixed by simp
qed

end
